theory Spec2Isabelle
  imports Main
begin

section \<open>Data model of cmd/gost/route.go\<close>

text \<open>
  The file route.go turns textual node specifications into chain nodes, node groups, a
  chain and routers. Everything it calls that lives outside route.go (the gost package,
  the other files of cmd/gost, Go's standard library, the file system and the network
  interfaces of the host) is a field of the record \<open>env\<close> below: the functions of
  route.go are modelled over an arbitrary environment. Capabilities that route.go only
  selects (transporters, connectors, listeners, handlers) are values of datatypes with
  one constructor per constructor function of the gost package, carrying the arguments
  route.go passes.
\<close>

text \<open>A Go error value carries a message. A function that indexes a slice ends in one
  of three ways: it returns a value, it returns an error, or the index expression panics
  because the slice is too short.\<close>

datatype error = Error string

datatype failure = Err error | IndexPanic

text \<open>url.Userinfo: \<open>url.User u\<close> has no password, \<open>url.UserPassword u p\<close> has one.\<close>

datatype userinfo = Userinfo (username: string) (password: string) (passwordSet: bool)

definition url_User :: "string \<Rightarrow> userinfo" where
  "url_User u = Userinfo u [] False"

definition url_UserPassword :: "string \<Rightarrow> string \<Rightarrow> userinfo" where
  "url_UserPassword u p = Userinfo u p True"

text \<open>Opaque objects built outside route.go, named by what they were built from.\<close>

datatype certpool = CertPool string
datatype x509_cert = X509Cert string
datatype tls_certificate = KeyPair string string
datatype ssh_key = SSHKey string
datatype authorized_keys = AuthorizedKeys string
datatype bypass = Bypass string
datatype strategy = NewStrategy string

type_synonym duration = int
type_synonym url_values = "(string \<times> string list) list"

text \<open>The function literal of lines 142-160 captures \<open>rootCAs\<close> and nothing else of the
  node; it is represented by the pool it captured and run by \<open>runVerifyConnection\<close>.\<close>

datatype verify_connection = VerifyAgainst certpool

record verify_options =
  Roots :: certpool
  CurrentTime :: int
  DNSName :: string
  Intermediates :: "x509_cert list"

record tls_config =
  ServerName :: string
  InsecureSkipVerify :: bool
  RootCAs :: "certpool option"
  VerifyConnection :: "verify_connection option"
  Certificates :: "tls_certificate list"

record ws_options =
  EnableCompression :: bool
  ReadBufferSize :: int
  WriteBufferSize :: int
  UserAgent :: string
  Path :: string

record kcp_config =
  TCP :: bool
  KCPSettings :: string

datatype authenticator = ParsedAuthenticator string | LocalAuthenticator "(string \<times> string) list"

record ssh_config =
  SSH_Authenticator :: "authenticator option"
  SSH_TLSConfig :: "tls_config option"
  SSH_Key :: "ssh_key option"
  SSH_AuthorizedKeys :: "authorized_keys option"

datatype transporter =
    TLSTransporter | MTLSTransporter
  | WSTransporter ws_options | MWSTransporter ws_options
  | WSSTransporter ws_options | MWSSTransporter ws_options
  | KCPTransporter kcp_config
  | SSHForwardTransporter | SSHTunnelTransporter
  | HTTP2Transporter tls_config | H2Transporter tls_config string | H2CTransporter string
  | Obfs4Transporter | ObfsHTTPTransporter | ObfsTLSTransporter
  | FakeTCPTransporter | UDPTransporter | VSOCKTransporter
  | TCPTransporter

datatype connector =
    HTTP2Connector "userinfo option"
  | SOCKS5Connector "userinfo option"
  | SOCKS4Connector | SOCKS4AConnector
  | ShadowConnector "userinfo option" | ShadowUDPConnector "userinfo option"
  | SSHDirectForwardConnector | SSHRemoteForwardConnector
  | ForwardConnector
  | SNIConnector string
  | HTTPConnector "userinfo option"
  | RelayConnector "userinfo option"
  | AutoConnector "userinfo option"

record client =
  Connector :: connector
  Transporter :: transporter

datatype dial_option = TimeoutDialOption duration | HostDialOption string

datatype connect_option =
    UserAgentConnectOption string | NoTLSConnectOption bool | NoDelayConnectOption bool

datatype handshake_option =
    AddrHandshakeOption string
  | HostHandshakeOption string
  | UserHandshakeOption "userinfo option"
  | TLSConfigHandshakeOption tls_config
  | IntervalHandshakeOption duration
  | TimeoutHandshakeOption duration
  | RetryHandshakeOption int
  | SSHConfigHandshakeOption ssh_config

text \<open>gost.Node, with the fields route.go reads or writes.\<close>

record node =
  ID :: int
  Addr :: string
  Host :: string
  Protocol :: string
  Transport :: string
  Remote :: string
  User :: "userinfo option"
  Values :: url_values
  DialOptions :: "dial_option list"
  ConnectOptions :: "connect_option list"
  HandshakeOptions :: "handshake_option list"
  Client :: "client option"
  NodeBypass :: "bypass option"

text \<open>Modelled from the spec: \<open>Node.Get\<close> is a method of the gost package, which is not
  part of route.go. The spec describes the options of a node as a string-keyed bag written
  \<open>?key=value&key2=value2\<close>; reading a key gives the first value stored under it and
  the empty string when there is none (route.go itself reads \<open>node.Values.Get\<close> and
  \<open>node.Get\<close> for the same key, lines 623-624).\<close>

definition Values_Get :: "url_values \<Rightarrow> string \<Rightarrow> string" where
  "Values_Get vs k = (case map_of vs k of None \<Rightarrow> [] | Some [] \<Rightarrow> [] | Some (v # _) \<Rightarrow> v)"

definition Get :: "node \<Rightarrow> string \<Rightarrow> string" where
  "Get n k = Values_Get (Values n) k"

text \<open>Modelled from the spec: \<open>Node.Clone\<close> is a method of the gost package; an expanded
  node inherits the base configuration, so the clone is a copy of the node value.\<close>

definition Clone :: "node \<Rightarrow> node" where
  "Clone n = n"

record net_interface =
  IfName :: string
  IfIndex :: int

datatype net_ip = IP "nat list"

record tcp_addr =
  TCP_IP :: net_ip
  TCP_Port :: int
  TCP_Zone :: string

text \<open>gost.UDPListenConfig and gost.FakeTCPListenConfig have the same three fields.\<close>

record udp_listen_config =
  UDP_TTL :: duration
  UDP_Backlog :: int
  UDP_QueueSize :: int

record ip_route =
  RouteDest :: string
  Gateway :: "net_ip option"

record tun_config =
  Tun_Name :: string
  Tun_Addr :: string
  Tun_Peer :: string
  Tun_MTU :: int
  Tun_Routes :: "ip_route list"
  Tun_Gateway :: string

record tap_config =
  Tap_Name :: string
  Tap_Addr :: string
  Tap_MTU :: int
  Tap_Routes :: "string list"
  Tap_Gateway :: string

record dns_options =
  DNS_Mode :: string
  DNS_TLSConfig :: "tls_config option"

datatype permissions = Permissions string
datatype hosts = Hosts string

datatype resolver_option =
    ChainResolverOption
  | TimeoutResolverOption duration
  | TTLResolverOption duration
  | PreferResolverOption string
  | SrcIPResolverOption "net_ip option"

record resolver =
  ResolverSource :: string
  ResolverInit :: "resolver_option list"

text \<open>A node group: its ID, its nodes, its selector, and the peer file for which a
  periodic reload was started (line 86), if any.\<close>

record selector =
  MaxFails :: int
  FailTimeout :: duration
  SelStrategy :: strategy

record node_group =
  GroupID :: int
  GroupNodes :: "node list"
  GroupSelector :: "selector option"
  PeerFile :: "string option"

record chain =
  ChainRetries :: int
  ChainMark :: int
  ChainInterface :: string
  NodeGroups :: "node_group list"

record route =
  ServeNodes :: "string list"
  ChainNodes :: "string list"
  Retries :: int
  Mark :: int
  Interface :: string

text \<open>A listener is the constructor of the gost package that route.go calls, with the
  arguments it passes. The chain handed to the two remote-forward listeners is the one
  chain of the route and is not repeated in the value.\<close>

datatype listener =
    TLSListener string "tls_config option"
  | MTLSListener string "tls_config option"
  | WSListener string ws_options
  | MWSListener string ws_options
  | WSSListener string "tls_config option" ws_options
  | MWSSListener string "tls_config option" ws_options
  | KCPListener string kcp_config
  | SSHTunnelListener string ssh_config
  | HTTP2Listener string "tls_config option"
  | H2Listener string "tls_config option" string
  | H2CListener string string
  | TCPListener string
  | VSOCKListener string
  | UDPListener string udp_listen_config
  | TCPRemoteForwardListener string
  | UDPRemoteForwardListener string udp_listen_config
  | Obfs4Listener string
  | ObfsHTTPListener string
  | ObfsTLSListener string
  | TunListener tun_config
  | TapListener tap_config
  | FakeTCPListener string udp_listen_config
  | DNSListener string dns_options
  | UDPRedirectListener string udp_listen_config

text \<open>Everything route.go calls and does not define:
  \<^item> of the gost package: \<open>ParseNode\<close>, the readers of the option bag of a node
    (\<open>ValuesBool\<close>, \<open>ValuesInt\<close> and \<open>ValuesDuration\<close> stand for \<open>Node.GetBool\<close>,
    \<open>Node.GetInt\<close> and \<open>Node.GetDuration\<close>), \<open>DefaultKCPConfig\<close>, \<open>ParseSSHKeyFile\<close>,
    \<open>ParseSSHAuthorizedKeysFile\<close>, \<open>Obfs4Init\<close>, \<open>ParsePermissions\<close>; \<open>Listen\<close> tells
    whether the listener constructor called on the current chain returns an error, and
    \<open>ListenerAddr\<close> is the address of the listener it returns;
  \<^item> of the other files of cmd/gost: \<open>parseUsers\<close>, \<open>loadCA\<close>, \<open>parseKCPConfig\<close>,
    \<open>parseBypass\<close>, \<open>parseIP\<close>, \<open>parseAuthenticator\<close>, \<open>tlsConfig\<close>,
    \<open>parseIPRoutes\<close>, \<open>parseHosts\<close>, \<open>parseResolver\<close>; \<open>PeerReload\<close> stands for
    the method \<open>Reload\<close> of the peer configuration (peer.go): given the peer file that
    was opened, the group the configuration points to and its base nodes, it is the group
    after the call (the error \<open>Reload\<close> returns is not read by route.go);
  \<^item> of Go's standard library: base64 \<open>DecodeString\<close>, \<open>net.SplitHostPort\<close> (its
    error is discarded at line 124, so only host and port are kept), \<open>tls.LoadX509KeyPair\<close>,
    the verification of an X.509 certificate, \<open>os.Open\<close>, \<open>net.ParseIP\<close>,
    \<open>net.InterfaceByName\<close>, the addresses of an interface (each one a \<open>*net.IPNet\<close>,
    of which the IP is kept), \<open>IP.To4\<close>, \<open>net.ResolveTCPAddr\<close> and \<open>TCPAddr.String\<close>.
  A function whose two results are both used by route.go returns a pair; one whose error
  is always checked returns a sum.\<close>

record env =
  ParseNode :: "string \<Rightarrow> error + node"
  DecodeString :: "string \<Rightarrow> error + string"
  parseUsers :: "string \<Rightarrow> userinfo list \<times> error option"
  SplitHostPort :: "string \<Rightarrow> string \<times> string"
  loadCA :: "string \<Rightarrow> error + certpool option"
  LoadX509KeyPair :: "string \<Rightarrow> string \<Rightarrow> error + tls_certificate"
  x509_Verify :: "x509_cert \<Rightarrow> verify_options \<Rightarrow> error option"
  ValuesBool :: "url_values \<Rightarrow> string \<Rightarrow> bool"
  ValuesInt :: "url_values \<Rightarrow> string \<Rightarrow> int"
  ValuesDuration :: "url_values \<Rightarrow> string \<Rightarrow> duration"
  parseKCPConfig :: "string \<Rightarrow> error + kcp_config option"
  DefaultKCPConfig :: kcp_config
  ParseSSHKeyFile :: "string \<Rightarrow> error + ssh_key"
  parseBypass :: "string \<Rightarrow> bypass option"
  parseIP :: "string \<Rightarrow> string \<Rightarrow> string list"
  Obfs4Init :: "node \<Rightarrow> bool \<Rightarrow> error option"
  os_Open :: "string \<Rightarrow> error option"
  PeerReload :: "string \<Rightarrow> node_group \<Rightarrow> node list \<Rightarrow> node_group"
  parseAuthenticator :: "string \<Rightarrow> error + authenticator option"
  tlsConfig :: "string \<Rightarrow> string \<Rightarrow> string \<Rightarrow> tls_config option \<times> error option"
  parseIPRoutes :: "string \<Rightarrow> ip_route list"
  net_ParseIP :: "string \<Rightarrow> net_ip option"
  ParseSSHAuthorizedKeysFile :: "string \<Rightarrow> error + authorized_keys"
  InterfaceByName :: "string \<Rightarrow> error + net_interface"
  InterfaceAddrs :: "net_interface \<Rightarrow> error + net_ip list"
  To4 :: "net_ip \<Rightarrow> net_ip option"
  ResolveTCPAddr :: "string \<Rightarrow> string \<Rightarrow> error + tcp_addr"
  TCPAddr_String :: "tcp_addr \<Rightarrow> string"
  ParsePermissions :: "string \<Rightarrow> error + permissions"
  parseHosts :: "string \<Rightarrow> hosts option"
  parseResolver :: "string \<Rightarrow> resolver option"
  Listen :: "chain \<Rightarrow> listener \<Rightarrow> error option"
  ListenerAddr :: "listener \<Rightarrow> string"

definition GetBool :: "env \<Rightarrow> node \<Rightarrow> string \<Rightarrow> bool" where
  "GetBool E n k = ValuesBool E (Values n) k"

definition GetInt :: "env \<Rightarrow> node \<Rightarrow> string \<Rightarrow> int" where
  "GetInt E n k = ValuesInt E (Values n) k"

definition GetDuration :: "env \<Rightarrow> node \<Rightarrow> string \<Rightarrow> duration" where
  "GetDuration E n k = ValuesDuration E (Values n) k"

section \<open>parseChainNode\<close>

text \<open>strings.IndexByte: the index of the first occurrence, -1 when there is none.\<close>

fun IndexByte :: "string \<Rightarrow> char \<Rightarrow> int" where
  "IndexByte [] c = - 1"
| "IndexByte (x # xs) c =
     (if x = c then 0 else (let r = IndexByte xs c in if r < 0 then - 1 else r + 1))"

text \<open>Lines 106-112: the decoded token becomes a credential.\<close>

definition userOfToken :: "string \<Rightarrow> userinfo" where
  "userOfToken cs =
     (let s = IndexByte cs (CHR '':'') in
      if s < 0 then url_User cs
      else url_UserPassword (take (nat s) cs) (drop (nat (s + 1)) cs))"

text \<open>Lines 101-113 (and, word for word, 342-354): the \<open>auth\<close> option is decoded
  only when the spec embeds no credential.\<close>

definition authUser :: "env \<Rightarrow> node \<Rightarrow> error + node" where
  "authUser E n =
     (if Get n ''auth'' \<noteq> [] \<and> User n = None
      then (case DecodeString E (Get n ''auth'') of
              Inl e \<Rightarrow> Inl e
            | Inr cs \<Rightarrow> Inr (n\<lparr>User := Some (userOfToken cs)\<rparr>))
      else Inr n)"

text \<open>Lines 114-122: the \<open>secrets\<close> file is read only when there is still no
  credential.\<close>

definition secretsUser :: "env \<Rightarrow> node \<Rightarrow> error + node" where
  "secretsUser E n =
     (if User n = None
      then (case parseUsers E (Get n ''secrets'') of
              (users, Some e) \<Rightarrow> Inl e
            | (users, None) \<Rightarrow>
                (case users of [] \<Rightarrow> Inr n | u # _ \<Rightarrow> Inr (n\<lparr>User := Some u\<rparr>)))
      else Inr n)"

text \<open>Lines 101-122: the credential of a chain node.\<close>

definition chainUser :: "env \<Rightarrow> node \<Rightarrow> error + node" where
  "chainUser E n0 =
     (case authUser E n0 of
        Inl e \<Rightarrow> Inl e
      | Inr n1 \<Rightarrow> secretsUser E n1)"

text \<open>Lines 142-160, the body of the installed verification step: every certificate but
  the one at index 0 goes into the pool of intermediates, and the certificate at index 0
  is verified. \<open>now\<close> is the value of time.Now() at the call.\<close>

fun addIntermediates :: "nat \<Rightarrow> x509_cert list \<Rightarrow> x509_cert list \<Rightarrow> x509_cert list" where
  "addIntermediates i [] pool = pool"
| "addIntermediates i (c # cs) pool =
     (if i = 0 then addIntermediates (Suc i) cs pool
      else addIntermediates (Suc i) cs (pool @ [c]))"


text \<open>Lines 124-165: the TLS configuration of a chain node, with the port of its
  address (\<open>sport\<close>).\<close>

definition chainTLS :: "env \<Rightarrow> node \<Rightarrow> error + (tls_config \<times> string)" where
  "chainTLS E n =
     (let (host0, sport) = SplitHostPort E (Addr n);
          serverName = (if host0 = [] then ''localhost'' else host0)
      in case loadCA E (Get n ''ca'') of
           Inl e \<Rightarrow> Inl e
         | Inr rootCAs \<Rightarrow>
             (let tlsCfg = \<lparr>ServerName = serverName,
                            InsecureSkipVerify = (\<not> GetBool E n ''secure''),
                            RootCAs = rootCAs,
                            VerifyConnection = None,
                            Certificates = []\<rparr>;
                  tlsCfg = (case rootCAs of
                              Some pool \<Rightarrow>
                                if \<not> GetBool E n ''secure''
                                then tlsCfg\<lparr>VerifyConnection := Some (VerifyAgainst pool)\<rparr>
                                else tlsCfg
                            | None \<Rightarrow> tlsCfg);
                  tlsCfg = (case LoadX509KeyPair E (Get n ''cert'') (Get n ''key'') of
                              Inr cert \<Rightarrow> tlsCfg\<lparr>Certificates := [cert]\<rparr>
                            | Inl _ \<Rightarrow> tlsCfg)
              in Inr (tlsCfg, sport)))"

text \<open>Lines 167-172.\<close>

definition chainWSOptions :: "env \<Rightarrow> node \<Rightarrow> ws_options" where
  "chainWSOptions E n =
     \<lparr>EnableCompression = GetBool E n ''compression'',
      ReadBufferSize = GetInt E n ''rbuf'',
      WriteBufferSize = GetInt E n ''wbuf'',
      UserAgent = Get n ''agent'',
      Path = Get n ''path''\<rparr>"

text \<open>Lines 191-201 (and 407-417): the KCP configuration, parsed or the default one.\<close>

definition kcpConfig :: "env \<Rightarrow> node \<Rightarrow> error + kcp_config" where
  "kcpConfig E n =
     (case parseKCPConfig E (Get n ''c'') of
        Inl e \<Rightarrow> Inl e
      | Inr (Some config) \<Rightarrow> Inr config
      | Inr None \<Rightarrow>
          (let conf = DefaultKCPConfig E;
               conf = (if GetBool E n ''tcp'' then conf\<lparr>TCP := True\<rparr> else conf)
           in Inr conf))"

text \<open>Lines 176-229: the switch on the transport key.\<close>

definition chainTransporter :: "env \<Rightarrow> node \<Rightarrow> tls_config \<Rightarrow> error + transporter" where
  "chainTransporter E n tlsCfg =
     (let wsOpts = chainWSOptions E n; t = Transport n in
      if t = ''tls'' then Inr TLSTransporter
      else if t = ''mtls'' then Inr MTLSTransporter
      else if t = ''ws'' then Inr (WSTransporter wsOpts)
      else if t = ''mws'' then Inr (MWSTransporter wsOpts)
      else if t = ''wss'' then Inr (WSSTransporter wsOpts)
      else if t = ''mwss'' then Inr (MWSSTransporter wsOpts)
      else if t = ''kcp'' then
        (case kcpConfig E n of Inl e \<Rightarrow> Inl e | Inr config \<Rightarrow> Inr (KCPTransporter config))
      else if t = ''ssh'' then
        (if Protocol n = ''direct'' \<or> Protocol n = ''remote''
         then Inr SSHForwardTransporter else Inr SSHTunnelTransporter)
      else if t = ''http2'' then Inr (HTTP2Transporter tlsCfg)
      else if t = ''h2'' then Inr (H2Transporter tlsCfg (Get n ''path''))
      else if t = ''h2c'' then Inr (H2CTransporter (Get n ''path''))
      else if t = ''obfs4'' then Inr Obfs4Transporter
      else if t = ''ohttp'' then Inr ObfsHTTPTransporter
      else if t = ''otls'' then Inr ObfsTLSTransporter
      else if t = ''ftcp'' then Inr FakeTCPTransporter
      else if t = ''udp'' then Inr UDPTransporter
      else if t = ''vsock'' then Inr VSOCKTransporter
      else Inr TCPTransporter)"

text \<open>Lines 231-259: the switch on the protocol key.\<close>

definition chainConnector :: "node \<Rightarrow> connector" where
  "chainConnector n =
     (let p = Protocol n in
      if p = ''http2'' then HTTP2Connector (User n)
      else if p = ''socks'' \<or> p = ''socks5'' then SOCKS5Connector (User n)
      else if p = ''socks4'' then SOCKS4Connector
      else if p = ''socks4a'' then SOCKS4AConnector
      else if p = ''ss'' then ShadowConnector (User n)
      else if p = ''ssu'' then ShadowUDPConnector (User n)
      else if p = ''direct'' then SSHDirectForwardConnector
      else if p = ''remote'' then SSHRemoteForwardConnector
      else if p = ''forward'' then ForwardConnector
      else if p = ''sni'' then SNIConnector (Get n ''host'')
      else if p = ''http'' then HTTPConnector (User n)
      else if p = ''relay'' then RelayConnector (User n)
      else AutoConnector (User n))"

text \<open>Lines 277-284: the SSH key of a chain node.\<close>

definition chainSSHConfig :: "env \<Rightarrow> node \<Rightarrow> error + ssh_config" where
  "chainSSHConfig E n =
     (let sshConfig = \<lparr>SSH_Authenticator = None, SSH_TLSConfig = None,
                       SSH_Key = None, SSH_AuthorizedKeys = None\<rparr>
      in if Get n ''ssh_key'' \<noteq> []
         then (case ParseSSHKeyFile E (Get n ''ssh_key'') of
                 Inl e \<Rightarrow> Inl e
               | Inr key \<Rightarrow> Inr (sshConfig\<lparr>SSH_Key := Some key\<rparr>))
         else Inr sshConfig)"

text \<open>Lines 96-301: the base node with its client, its options and its bypass, the
  handshake options shared by the nodes built from it, and the port of its address.\<close>

definition chainBase :: "env \<Rightarrow> string \<Rightarrow> error + (node \<times> handshake_option list \<times> string)" where
  "chainBase E ns =
     (case ParseNode E ns of
        Inl e \<Rightarrow> Inl e
      | Inr n0 \<Rightarrow>
     (case chainUser E n0 of
        Inl e \<Rightarrow> Inl e
      | Inr n \<Rightarrow>
     (case chainTLS E n of
        Inl e \<Rightarrow> Inl e
      | Inr (tlsCfg, sport) \<Rightarrow>
     (let timeout = GetDuration E n ''timeout'' in
      case chainTransporter E n tlsCfg of
        Inl e \<Rightarrow> Inl e
      | Inr tr \<Rightarrow>
     (let connector = chainConnector n;
          host = (if Get n ''host'' = [] then Host n else Get n ''host'');
          n = n\<lparr>DialOptions := DialOptions n @ [TimeoutDialOption timeout, HostDialOption host]\<rparr>;
          n = n\<lparr>ConnectOptions :=
                  [UserAgentConnectOption (Get n ''agent''),
                   NoTLSConnectOption (GetBool E n ''notls''),
                   NoDelayConnectOption (GetBool E n ''nodelay'')]\<rparr>
      in case chainSSHConfig E n of
           Inl e \<Rightarrow> Inl e
         | Inr sshConfig \<Rightarrow>
     (let handshakeOptions =
            [AddrHandshakeOption (Addr n),
             HostHandshakeOption host,
             UserHandshakeOption (User n),
             TLSConfigHandshakeOption tlsCfg,
             IntervalHandshakeOption (GetDuration E n ''ping''),
             TimeoutHandshakeOption timeout,
             RetryHandshakeOption (GetInt E n ''retry''),
             SSHConfigHandshakeOption sshConfig];
          n = n\<lparr>Client := Some \<lparr>Connector = connector, Transporter = tr\<rparr>\<rparr>;
          n = n\<lparr>NodeBypass := parseBypass E (Get n ''bypass'')\<rparr>
      in Inr (n, handshakeOptions, sport)))))))"

text \<open>Lines 303-315: one node per address of the \<open>ip\<close> option, or the base node.\<close>

definition expandIPs :: "node \<Rightarrow> handshake_option list \<Rightarrow> string list \<Rightarrow> node list" where
  "expandIPs n handshakeOptions ips =
     (let nodes = map (\<lambda>ip. (Clone n)\<lparr>Addr := ip,
                                       HandshakeOptions := handshakeOptions @ [AddrHandshakeOption ip]\<rparr>) ips
      in if length ips = 0 then [n\<lparr>HandshakeOptions := handshakeOptions\<rparr>] else nodes)"

text \<open>Lines 317-323: the negotiation of the obfs4 transport, node by node.\<close>

fun obfs4InitAll :: "env \<Rightarrow> node list \<Rightarrow> error option" where
  "obfs4InitAll E [] = None"
| "obfs4InitAll E (nd # nds) =
     (case Obfs4Init E nd False of Some e \<Rightarrow> Some e | None \<Rightarrow> obfs4InitAll E nds)"

definition parseChainNode :: "env \<Rightarrow> string \<Rightarrow> error + node list" where
  "parseChainNode E ns =
     (case chainBase E ns of
        Inl e \<Rightarrow> Inl e
      | Inr (n, handshakeOptions, sport) \<Rightarrow>
          (let ips = parseIP E (Get n ''ip'') sport;
               nodes = expandIPs n handshakeOptions ips
           in if Transport n = ''obfs4''
              then (case obfs4InitAll E nodes of Some e \<Rightarrow> Inl e | None \<Rightarrow> Inr nodes)
              else Inr nodes))"

section \<open>parseChain\<close>

text \<open>Lines 56-60: the nodes of one spec are numbered from \<open>nid\<close> on. The counters
  \<open>gid\<close> and \<open>nid\<close> are Go ints counting specs and nodes held in memory; they are
  far from the range where a 64-bit int wraps, and are integers here.\<close>

fun assignIDs :: "int \<Rightarrow> node list \<Rightarrow> node list" where
  "assignIDs nid [] = []"
| "assignIDs nid (n # ns) = n\<lparr>ID := nid\<rparr> # assignIDs (nid + 1) ns"

text \<open>Lines 46-87: the group with ID \<open>gid\<close> made of the nodes of one spec. The reads
  of \<open>nodes[0]\<close> panic on an empty slice. When the first node names a peer file that
  opens, the peer configuration is given the group and the nodes, \<open>Reload\<close> runs once on
  the file (lines 80-84), and the periodic reload is started (line 86).\<close>

definition groupOfNodes :: "env \<Rightarrow> int \<Rightarrow> node list \<Rightarrow> failure + node_group" where
  "groupOfNodes E gid nodes0 =
     (let ngroup = \<lparr>GroupID = gid, GroupNodes = [], GroupSelector = None, PeerFile = None\<rparr>;
          nodes = assignIDs 1 nodes0;
          ngroup = ngroup\<lparr>GroupNodes := GroupNodes ngroup @ nodes\<rparr>
      in case nodes of
           [] \<Rightarrow> Inl IndexPanic
         | first # _ \<Rightarrow>
             (let ngroup = ngroup\<lparr>GroupSelector :=
                    Some \<lparr>MaxFails = GetInt E first ''max_fails'',
                          FailTimeout = GetDuration E first ''fail_timeout'',
                          SelStrategy = NewStrategy (Get first ''strategy'')\<rparr>\<rparr>;
                  cfg = Get first ''peer''
              in if cfg \<noteq> []
                 then (case os_Open E cfg of
                         Some e \<Rightarrow> Inl (Err e)
                       | None \<Rightarrow>
                           Inr ((PeerReload E cfg ngroup nodes)\<lparr>PeerFile := Some cfg\<rparr>))
                 else Inr ngroup))"

text \<open>Lines 46-87, one round of the loop: the group of the spec \<open>ns\<close>.\<close>

definition parseChainGroup :: "env \<Rightarrow> int \<Rightarrow> string \<Rightarrow> failure + node_group" where
  "parseChainGroup E gid ns =
     (case parseChainNode E ns of
        Inl e \<Rightarrow> Inl (Err e)
      | Inr nodes \<Rightarrow> groupOfNodes E gid nodes)"

text \<open>Lines 45-90: the loop over the chain-node specs; each group is appended to the
  chain and \<open>gid\<close> goes up by one.\<close>

fun parseChainLoop :: "env \<Rightarrow> int \<Rightarrow> chain \<Rightarrow> string list \<Rightarrow> failure + chain" where
  "parseChainLoop E gid c [] = Inr c"
| "parseChainLoop E gid c (ns # rest) =
     (case parseChainGroup E gid ns of
        Inl e \<Rightarrow> Inl e
      | Inr ngroup \<Rightarrow>
          parseChainLoop E (gid + 1) (c\<lparr>NodeGroups := NodeGroups c @ [ngroup]\<rparr>) rest)"

definition parseChain :: "env \<Rightarrow> route \<Rightarrow> failure + chain" where
  "parseChain E r =
     parseChainLoop E 1
       \<lparr>ChainRetries = Retries r, ChainMark = Mark r, ChainInterface = Interface r,
        NodeGroups = []\<rparr>
       (ChainNodes r)"

section \<open>GenRouters\<close>

datatype handler_kind =
    HTTP2Handler | SOCKS5Handler | SOCKS4Handler | ShadowHandler | HTTPHandler
  | TCPDirectForwardHandler string | TCPRemoteForwardHandler string
  | UDPDirectForwardHandler string | UDPRemoteForwardHandler string
  | SSHForwardHandler | TCPRedirectHandler | UDPRedirectHandler
  | ShadowUDPHandler | SNIHandler | TunHandler | TapHandler
  | DNSHandler string | RelayHandler string
  | AutoHandler

text \<open>The chain is handed to handlers, resolvers and remote-forward listeners as a
  pointer to the one chain of the route, so the options naming it carry no value.\<close>

datatype handler_option =
    AddrHandlerOption string
  | ChainHandlerOption
  | UsersHandlerOption "userinfo option"
  | AuthenticatorHandlerOption "authenticator option"
  | TLSConfigHandlerOption "tls_config option"
  | WhitelistHandlerOption "permissions option"
  | BlacklistHandlerOption "permissions option"
  | StrategyHandlerOption strategy
  | MaxFailsHandlerOption int
  | FailTimeoutHandlerOption duration
  | BypassHandlerOption "bypass option"
  | ResolverHandlerOption "resolver option"
  | HostsHandlerOption "hosts option"
  | RetryHandlerOption int
  | TimeoutHandlerOption duration
  | ProbeResistHandlerOption string
  | KnockingHandlerOption string
  | NodeHandlerOption node
  | IPsHandlerOption "string list"
  | TCPModeHandlerOption bool
  | IPRoutesHandlerOption "ip_route list"
  | ProxyAgentHandlerOption string
  | HTTPTunnelHandlerOption bool
  | PreserveSrcHandlerOption bool
  | ProxyNetnsHandlerOption string

text \<open>A handler is the constructor that made it and the calls of \<open>Init\<close> made on
  it, in order, each with its options.\<close>

record handler =
  HandlerKind :: handler_kind
  HandlerInits :: "handler_option list list"

record router =
  RouterNode :: node
  RouterListener :: listener
  RouterHandler :: handler
  RouterResolver :: "resolver option"
  RouterHosts :: "hosts option"

text \<open>Lines 342-368: the credential and the authenticator of a serve node. The error
  of the second read of the secrets file is dropped by the source.\<close>

definition serveAuth :: "env \<Rightarrow> node \<Rightarrow> error + (node \<times> authenticator option)" where
  "serveAuth E n0 =
     (case authUser E n0 of
        Inl e \<Rightarrow> Inl e
      | Inr n \<Rightarrow>
     (case parseAuthenticator E (Get n ''secrets'') of
        Inl e \<Rightarrow> Inl e
      | Inr authenticator0 \<Rightarrow>
     (let authenticator =
            (case authenticator0 of
               Some a \<Rightarrow> Some a
             | None \<Rightarrow>
                 (case User n of
                    Some u \<Rightarrow> Some (LocalAuthenticator [(username u, password u)])
                  | None \<Rightarrow> None));
          n = (if User n = None
               then (case fst (parseUsers E (Get n ''secrets'')) of
                       [] \<Rightarrow> n
                     | u # _ \<Rightarrow> n\<lparr>User := Some u\<rparr>)
               else n)
      in Inr (n, authenticator))))"

text \<open>Lines 369-373: an error of tlsConfig counts only when both files are named.\<close>

definition serveTLS :: "env \<Rightarrow> node \<Rightarrow> error + tls_config option" where
  "serveTLS E n =
     (let certFile = Get n ''cert''; keyFile = Get n ''key'' in
      case tlsConfig E certFile keyFile (Get n ''ca'') of
        (tlsCfg, Some e) \<Rightarrow> if certFile \<noteq> [] \<and> keyFile \<noteq> [] then Inl e else Inr tlsCfg
      | (tlsCfg, None) \<Rightarrow> Inr tlsCfg)"

text \<open>Lines 375-379.\<close>

definition serveWSOptions :: "env \<Rightarrow> node \<Rightarrow> ws_options" where
  "serveWSOptions E n =
     \<lparr>EnableCompression = GetBool E n ''compression'',
      ReadBufferSize = GetInt E n ''rbuf'',
      WriteBufferSize = GetInt E n ''wbuf'',
      UserAgent = [],
      Path = Get n ''path''\<rparr>"

text \<open>Lines 384-390: routes without a gateway get the default one.\<close>

definition serveTunRoutes :: "env \<Rightarrow> node \<Rightarrow> ip_route list" where
  "serveTunRoutes E n =
     (let gw = net_ParseIP E (Get n ''gw'') in
      map (\<lambda>r. if Gateway r = None then r\<lparr>Gateway := gw\<rparr> else r)
          (parseIPRoutes E (Get n ''route'')))"

text \<open>Lines 420-437: the SSH configuration of a serve node.\<close>

definition serveSSHConfig ::
  "env \<Rightarrow> node \<Rightarrow> tls_config option \<Rightarrow> authenticator option \<Rightarrow> error + ssh_config" where
  "serveSSHConfig E n tlsCfg authenticator =
     (let config = \<lparr>SSH_Authenticator = authenticator, SSH_TLSConfig = tlsCfg,
                    SSH_Key = None, SSH_AuthorizedKeys = None\<rparr>
      in case (if Get n ''ssh_key'' \<noteq> []
               then (case ParseSSHKeyFile E (Get n ''ssh_key'') of
                       Inl e \<Rightarrow> Inl e
                     | Inr key \<Rightarrow> Inr (config\<lparr>SSH_Key := Some key\<rparr>))
               else Inr config) of
           Inl e \<Rightarrow> Inl e
         | Inr config \<Rightarrow>
             if Get n ''ssh_authorized_keys'' \<noteq> []
             then (case ParseSSHAuthorizedKeysFile E (Get n ''ssh_authorized_keys'') of
                     Inl e \<Rightarrow> Inl e
                   | Inr keys \<Rightarrow> Inr (config\<lparr>SSH_AuthorizedKeys := Some keys\<rparr>))
             else Inr config)"

text \<open>Modelled from the spec: the methods \<open>LastNode\<close> and \<open>Nodes\<close> of gost.Chain
  are not part of route.go. \<open>LastNode\<close> exposes the last group's representative node,
  its first one; a chain without groups, or whose last group is empty, has none. The client
  of a node is one object shared by the nodes cloned from one base node, that is by the
  nodes of a group, so the substitution of lines 452-453 and 505-506 shows in each.\<close>

definition LastNode :: "chain \<Rightarrow> node option" where
  "LastNode c =
     (case NodeGroups c of
        [] \<Rightarrow> None
      | g # gs \<Rightarrow> (case GroupNodes (last (g # gs)) of [] \<Rightarrow> None | n # _ \<Rightarrow> Some n))"

definition lastIsForwardSSH :: "chain \<Rightarrow> bool" where
  "lastIsForwardSSH c =
     (case LastNode c of
        None \<Rightarrow> False
      | Some n \<Rightarrow> Protocol n = ''forward'' \<and> Transport n = ''ssh'')"

definition setLastClient :: "connector \<Rightarrow> transporter \<Rightarrow> chain \<Rightarrow> chain" where
  "setLastClient conn tr c =
     (case NodeGroups c of
        [] \<Rightarrow> c
      | g # gs \<Rightarrow>
          (let lg = last (g # gs);
               lg = lg\<lparr>GroupNodes :=
                      map (\<lambda>n. n\<lparr>Client :=
                                    map_option (\<lambda>cl. cl\<lparr>Connector := conn, Transporter := tr\<rparr>)
                                               (Client n)\<rparr>)
                          (GroupNodes lg)\<rparr>
           in c\<lparr>NodeGroups := butlast (g # gs) @ [lg]\<rparr>))"

text \<open>Lines 471-475: the loop over the addresses of the interface stops at the first
  one that has an IPv4 form; \<open>ipv4Addr\<close> holds the last conversion made.\<close>

fun ipv4Loop :: "env \<Rightarrow> net_ip option \<Rightarrow> net_ip list \<Rightarrow> net_ip option" where
  "ipv4Loop E ipv4Addr [] = ipv4Addr"
| "ipv4Loop E ipv4Addr (a # as) =
     (case To4 E a of Some ip \<Rightarrow> Some ip | None \<Rightarrow> ipv4Loop E None as)"

text \<open>Lines 457-492: the address the TCP listener is given. The line printed on
  standard output (line 491) is not modelled.\<close>

definition tcpListenAddr :: "env \<Rightarrow> node \<Rightarrow> error + string" where
  "tcpListenAddr E n =
     (let addr = Addr n; ifName = Get n ''sourceInterface'' in
      if ifName \<noteq> []
      then (case InterfaceByName E ifName of
              Inl _ \<Rightarrow> Inl (Error (''your interface '' @ ifName @ '' is error''))
            | Inr ief \<Rightarrow>
          (case InterfaceAddrs E ief of
              Inl _ \<Rightarrow> Inl (Error (''your interface '' @ ifName @ '' is does not have address''))
            | Inr addrs \<Rightarrow>
          (case ipv4Loop E None addrs of
              None \<Rightarrow> Inl (Error (''your interface '' @ ifName @ '' don't have an ipv4 address''
                                  @ [CHR 0x0A]))
            | Some ipv4Addr \<Rightarrow>
          (case ResolveTCPAddr E ''tcp'' addr of
              Inl e \<Rightarrow> Inl e
            | Inr laddr \<Rightarrow>
                Inr (TCPAddr_String E
                      \<lparr>TCP_IP = ipv4Addr, TCP_Port = TCP_Port laddr, TCP_Zone = TCP_Zone laddr\<rparr>)))))
      else Inr addr)"

text \<open>strings.Split with a one-byte separator.\<close>

fun splitOn :: "char \<Rightarrow> string \<Rightarrow> string list" where
  "splitOn sep [] = [[]]"
| "splitOn sep (x # xs) =
     (if x = sep then [] # splitOn sep xs
      else (case splitOn sep xs of [] \<Rightarrow> [[x]] | w # ws \<Rightarrow> (x # w) # ws))"

text \<open>Lines 392-570: the switch on the transport key. The result is the listener
  constructor called with its arguments, and the chain after the case has run.\<close>

definition serveListener ::
  "env \<Rightarrow> chain \<Rightarrow> node \<Rightarrow> tls_config option \<Rightarrow> authenticator option
   \<Rightarrow> error + (listener \<times> chain)" where
  "serveListener E c n tlsCfg authenticator =
     (let wsOpts = serveWSOptions E n;
          ttl = GetDuration E n ''ttl'';
          tunRoutes = serveTunRoutes E n;
          lcfg = \<lparr>UDP_TTL = ttl, UDP_Backlog = GetInt E n ''backlog'',
                  UDP_QueueSize = GetInt E n ''queue''\<rparr>;
          t = Transport n
      in
      if t = ''tls'' then Inr (TLSListener (Addr n) tlsCfg, c)
      else if t = ''mtls'' then Inr (MTLSListener (Addr n) tlsCfg, c)
      else if t = ''ws'' then Inr (WSListener (Addr n) wsOpts, c)
      else if t = ''mws'' then Inr (MWSListener (Addr n) wsOpts, c)
      else if t = ''wss'' then Inr (WSSListener (Addr n) tlsCfg wsOpts, c)
      else if t = ''mwss'' then Inr (MWSSListener (Addr n) tlsCfg wsOpts, c)
      else if t = ''kcp'' then
        (case kcpConfig E n of
           Inl e \<Rightarrow> Inl e
         | Inr config \<Rightarrow> Inr (KCPListener (Addr n) config, c))
      else if t = ''ssh'' then
        (case serveSSHConfig E n tlsCfg authenticator of
           Inl e \<Rightarrow> Inl e
         | Inr config \<Rightarrow>
             if Protocol n = ''forward'' then Inr (TCPListener (Addr n), c)
             else Inr (SSHTunnelListener (Addr n) config, c))
      else if t = ''http2'' then Inr (HTTP2Listener (Addr n) tlsCfg, c)
      else if t = ''h2'' then Inr (H2Listener (Addr n) tlsCfg (Get n ''path''), c)
      else if t = ''h2c'' then Inr (H2CListener (Addr n) (Get n ''path''), c)
      else if t = ''tcp'' then
        (let c = (if lastIsForwardSSH c
                  then setLastClient SSHDirectForwardConnector SSHForwardTransporter c
                  else c)
         in case tcpListenAddr E n of
              Inl e \<Rightarrow> Inl e
            | Inr addr \<Rightarrow> Inr (TCPListener addr, c))
      else if t = ''vsock'' then Inr (VSOCKListener (Addr n), c)
      else if t = ''udp'' then Inr (UDPListener (Addr n) lcfg, c)
      else if t = ''rtcp'' then
        (let c = (if lastIsForwardSSH c
                  then setLastClient SSHRemoteForwardConnector SSHForwardTransporter c
                  else c)
         in Inr (TCPRemoteForwardListener (Addr n), c))
      else if t = ''rudp'' then Inr (UDPRemoteForwardListener (Addr n) lcfg, c)
      else if t = ''obfs4'' then
        (case Obfs4Init E n True of
           Some e \<Rightarrow> Inl e
         | None \<Rightarrow> Inr (Obfs4Listener (Addr n), c))
      else if t = ''ohttp'' then Inr (ObfsHTTPListener (Addr n), c)
      else if t = ''otls'' then Inr (ObfsTLSListener (Addr n), c)
      else if t = ''tun'' then
        Inr (TunListener \<lparr>Tun_Name = Get n ''name'', Tun_Addr = Get n ''net'',
                           Tun_Peer = Get n ''peer'', Tun_MTU = GetInt E n ''mtu'',
                           Tun_Routes = tunRoutes, Tun_Gateway = Get n ''gw''\<rparr>, c)
      else if t = ''tap'' then
        Inr (TapListener \<lparr>Tap_Name = Get n ''name'', Tap_Addr = Get n ''net'',
                           Tap_MTU = GetInt E n ''mtu'',
                           Tap_Routes = splitOn (CHR '','') (Get n ''route''),
                           Tap_Gateway = Get n ''gw''\<rparr>, c)
      else if t = ''ftcp'' then Inr (FakeTCPListener (Addr n) lcfg, c)
      else if t = ''dns'' then
        Inr (DNSListener (Addr n) \<lparr>DNS_Mode = Get n ''mode'', DNS_TLSConfig = tlsCfg\<rparr>, c)
      else if t = ''redu'' \<or> t = ''redirectu'' then Inr (UDPRedirectListener (Addr n) lcfg, c)
      else Inr (TCPListener (Addr n), c))"

text \<open>The address a listener constructor is given; the TUN and TAP listeners are given
  a device configuration and no address.\<close>

fun listenerAddr :: "listener \<Rightarrow> string option" where
  "listenerAddr (TLSListener a _) = Some a"
| "listenerAddr (MTLSListener a _) = Some a"
| "listenerAddr (WSListener a _) = Some a"
| "listenerAddr (MWSListener a _) = Some a"
| "listenerAddr (WSSListener a _ _) = Some a"
| "listenerAddr (MWSSListener a _ _) = Some a"
| "listenerAddr (KCPListener a _) = Some a"
| "listenerAddr (SSHTunnelListener a _) = Some a"
| "listenerAddr (HTTP2Listener a _) = Some a"
| "listenerAddr (H2Listener a _ _) = Some a"
| "listenerAddr (H2CListener a _) = Some a"
| "listenerAddr (TCPListener a) = Some a"
| "listenerAddr (VSOCKListener a) = Some a"
| "listenerAddr (UDPListener a _) = Some a"
| "listenerAddr (TCPRemoteForwardListener a) = Some a"
| "listenerAddr (UDPRemoteForwardListener a _) = Some a"
| "listenerAddr (Obfs4Listener a) = Some a"
| "listenerAddr (ObfsHTTPListener a) = Some a"
| "listenerAddr (ObfsTLSListener a) = Some a"
| "listenerAddr (TunListener _) = None"
| "listenerAddr (TapListener _) = None"
| "listenerAddr (FakeTCPListener a _) = Some a"
| "listenerAddr (DNSListener a _) = Some a"
| "listenerAddr (UDPRedirectListener a _) = Some a"

text \<open>Lines 575-620: the switch on the protocol key.\<close>

definition serveHandler :: "node \<Rightarrow> handler_kind" where
  "serveHandler n =
     (let p = Protocol n in
      if p = ''http2'' then HTTP2Handler
      else if p = ''socks'' \<or> p = ''socks5'' then SOCKS5Handler
      else if p = ''socks4'' \<or> p = ''socks4a'' then SOCKS4Handler
      else if p = ''ss'' then ShadowHandler
      else if p = ''http'' then HTTPHandler
      else if p = ''tcp'' then TCPDirectForwardHandler (Remote n)
      else if p = ''rtcp'' then TCPRemoteForwardHandler (Remote n)
      else if p = ''udp'' then UDPDirectForwardHandler (Remote n)
      else if p = ''rudp'' then UDPRemoteForwardHandler (Remote n)
      else if p = ''forward'' then SSHForwardHandler
      else if p = ''red'' \<or> p = ''redirect'' then TCPRedirectHandler
      else if p = ''redu'' \<or> p = ''redirectu'' then UDPRedirectHandler
      else if p = ''ssu'' then ShadowUDPHandler
      else if p = ''sni'' then SNIHandler
      else if p = ''tun'' then TunHandler
      else if p = ''tap'' then TapHandler
      else if p = ''dns'' then DNSHandler (Remote n)
      else if p = ''relay'' then RelayHandler (Remote n)
      else if Remote n \<noteq> [] then TCPDirectForwardHandler (Remote n)
      else AutoHandler)"

text \<open>Lines 622-632: a permission list is parsed only when its option is not empty.\<close>

definition servePermissions :: "env \<Rightarrow> node \<Rightarrow> string \<Rightarrow> error + permissions option" where
  "servePermissions E n k =
     (if Values_Get (Values n) k \<noteq> []
      then (case ParsePermissions E (Get n k) of
              Inl e \<Rightarrow> Inl e
            | Inr ps \<Rightarrow> Inr (Some ps))
      else Inr None)"

text \<open>Lines 575-693: the handler of a serve node, its permission lists, its bypass,
  hosts, addresses and resolver, the calls of \<open>Init\<close>, and the router.\<close>

definition serveRouter ::
  "env \<Rightarrow> node \<Rightarrow> authenticator option \<Rightarrow> tls_config option \<Rightarrow> listener
   \<Rightarrow> error + router" where
  "serveRouter E n authenticator tlsCfg ln =
     (let ttl = GetDuration E n ''ttl'';
          timeout = GetDuration E n ''timeout'';
          tunRoutes = serveTunRoutes E n;
          kind = serveHandler n
      in
      case servePermissions E n ''whitelist'' of
        Inl e \<Rightarrow> Inl e
      | Inr whitelist \<Rightarrow>
     (case servePermissions E n ''blacklist'' of
        Inl e \<Rightarrow> Inl e
      | Inr blacklist \<Rightarrow>
     (let n = n\<lparr>NodeBypass := parseBypass E (Get n ''bypass'')\<rparr>;
          hosts = parseHosts E (Get n ''hosts'');
          ips = parseIP E (Get n ''ip'') [];
          resolver =
            map_option
              (\<lambda>r. r\<lparr>ResolverInit := ResolverInit r @
                     [ChainResolverOption,
                      TimeoutResolverOption timeout,
                      TTLResolverOption ttl,
                      PreferResolverOption (Get n ''prefer''),
                      SrcIPResolverOption (net_ParseIP E (Get n ''ip''))]\<rparr>)
              (parseResolver E (Get n ''dns''));
          h = \<lparr>HandlerKind = kind,
               HandlerInits =
                 [[AddrHandlerOption (ListenerAddr E ln),
                   ChainHandlerOption,
                   UsersHandlerOption (User n),
                   AuthenticatorHandlerOption authenticator,
                   TLSConfigHandlerOption tlsCfg,
                   WhitelistHandlerOption whitelist,
                   BlacklistHandlerOption blacklist,
                   StrategyHandlerOption (NewStrategy (Get n ''strategy'')),
                   MaxFailsHandlerOption (GetInt E n ''max_fails''),
                   FailTimeoutHandlerOption (GetDuration E n ''fail_timeout''),
                   BypassHandlerOption (NodeBypass n),
                   ResolverHandlerOption resolver,
                   HostsHandlerOption hosts,
                   RetryHandlerOption (GetInt E n ''retry''),
                   TimeoutHandlerOption timeout,
                   ProbeResistHandlerOption (Get n ''probe_resist''),
                   KnockingHandlerOption (Get n ''knock''),
                   NodeHandlerOption n,
                   IPsHandlerOption ips,
                   TCPModeHandlerOption (GetBool E n ''tcp''),
                   IPRoutesHandlerOption tunRoutes,
                   ProxyAgentHandlerOption (Get n ''proxyAgent''),
                   HTTPTunnelHandlerOption (GetBool E n ''httpTunnel'')]]\<rparr>;
          h = (if Protocol n = ''red'' \<or> Protocol n = ''redirect''
               then h\<lparr>HandlerInits := HandlerInits h @
                      [[PreserveSrcHandlerOption (GetBool E n ''preserveSrc''),
                        ProxyNetnsHandlerOption (Get n ''proxyNetns'')]]\<rparr>
               else h)
      in Inr \<lparr>RouterNode = n, RouterListener = ln, RouterHandler = h,
               RouterResolver = resolver, RouterHosts = hosts\<rparr>)))"

text \<open>Lines 337-693, one round of the loop of GenRouters: the router of the spec
  \<open>ns\<close>, and the chain after it was built. Line 571 returns the error of the listener
  constructor.\<close>

definition serveNode :: "env \<Rightarrow> chain \<Rightarrow> string \<Rightarrow> error + (router \<times> chain)" where
  "serveNode E c0 ns =
     (case ParseNode E ns of
        Inl e \<Rightarrow> Inl e
      | Inr n0 \<Rightarrow>
     (case serveAuth E n0 of
        Inl e \<Rightarrow> Inl e
      | Inr (n, authenticator) \<Rightarrow>
     (case serveTLS E n of
        Inl e \<Rightarrow> Inl e
      | Inr tlsCfg \<Rightarrow>
     (case serveListener E c0 n tlsCfg authenticator of
        Inl e \<Rightarrow> Inl e
      | Inr (ln, c) \<Rightarrow>
     (case Listen E c ln of
        Some e \<Rightarrow> Inl e
      | None \<Rightarrow>
     (case serveRouter E n authenticator tlsCfg ln of
        Inl e \<Rightarrow> Inl e
      | Inr rt \<Rightarrow> Inr (rt, c)))))))"

text \<open>Lines 336-694: the loop over the serve-node specs; every router is appended to
  \<open>rts\<close>, and the first error ends the loop with no router at all.\<close>

fun serveLoop ::
  "env \<Rightarrow> chain \<Rightarrow> router list \<Rightarrow> string list \<Rightarrow> error + (router list \<times> chain)" where
  "serveLoop E c rts [] = Inr (rts, c)"
| "serveLoop E c rts (ns # rest) =
     (case serveNode E c ns of
        Inl e \<Rightarrow> Inl e
      | Inr (rt, c') \<Rightarrow> serveLoop E c' (rts @ [rt]) rest)"

text \<open>Lines 328-697. The result is the routers and the chain all of them point to.\<close>

definition GenRouters :: "env \<Rightarrow> route \<Rightarrow> failure + (router list \<times> chain)" where
  "GenRouters E r =
     (case parseChain E r of
        Inl f \<Rightarrow> Inl f
      | Inr chain \<Rightarrow>
          (case serveLoop E chain [] (ServeNodes r) of
             Inl e \<Rightarrow> Inl (Err e)
           | Inr res \<Rightarrow> Inr res))"

section \<open>A sample environment\<close>

text \<open>A small host on which the functions above can be run: a handful of node
  specifications with the nodes gost.ParseNode yields for them, one readable CA file, one
  secrets file, one peer file whose reload adds one node after the base nodes of the
  group, an interface \<open>tailscale0\<close> with an IPv6 and an IPv4 address, an
  interface \<open>lo6\<close> with an IPv6 address only, an interface \<open>dummy0\<close> without
  addresses, and no other interface. The obfs4 negotiation fails for the address
  \<open>1.2.3.5:443\<close>.\<close>

definition emptyNode :: node where
  "emptyNode =
     \<lparr>ID = 0, Addr = [], Host = [], Protocol = [], Transport = [], Remote = [],
      User = None, Values = [], DialOptions = [], ConnectOptions = [],
      HandshakeOptions = [], Client = None, NodeBypass = None\<rparr>"

definition sample_ParseNode :: "string \<Rightarrow> error + node" where
  "sample_ParseNode s =
     (if s = ''socks5://u:p@10.0.0.1:1080''
      then Inr (emptyNode\<lparr>Addr := ''10.0.0.1:1080'', Host := ''10.0.0.1:1080'',
                  Protocol := ''socks5'', Transport := ''tcp'',
                  User := Some (url_UserPassword ''u'' ''p'')\<rparr>)
      else if s = ''socks5://10.0.0.1:1080?auth=dTpw''
      then Inr (emptyNode\<lparr>Addr := ''10.0.0.1:1080'', Host := ''10.0.0.1:1080'',
                  Protocol := ''socks5'', Transport := ''tcp'',
                  Values := [(''auth'', [''dTpw''])]\<rparr>)
      else if s = ''socks5://10.0.0.1:1080?auth=!!''
      then Inr (emptyNode\<lparr>Addr := ''10.0.0.1:1080'', Host := ''10.0.0.1:1080'',
                  Protocol := ''socks5'', Transport := ''tcp'',
                  Values := [(''auth'', [''!!''])]\<rparr>)
      else if s = ''socks5://proxy.example:1080?ip=1.2.3.4,1.2.3.5''
      then Inr (emptyNode\<lparr>Addr := ''proxy.example:1080'', Host := ''proxy.example:1080'',
                  Protocol := ''socks5'', Transport := ''tcp'',
                  Values := [(''ip'', [''1.2.3.4,1.2.3.5''])]\<rparr>)
      else if s = ''http2://10.0.0.1:443?cert=/missing.pem&key=/missing.key''
      then Inr (emptyNode\<lparr>Addr := ''10.0.0.1:443'', Host := ''10.0.0.1:443'',
                  Protocol := ''http2'', Transport := ''http2'',
                  Values := [(''cert'', [''/missing.pem'']), (''key'', [''/missing.key''])]\<rparr>)
      else if s = ''http2://10.0.0.1:443?ca=/etc/gost/ca.pem''
      then Inr (emptyNode\<lparr>Addr := ''10.0.0.1:443'', Host := ''10.0.0.1:443'',
                  Protocol := ''http2'', Transport := ''http2'',
                  Values := [(''ca'', [''/etc/gost/ca.pem''])]\<rparr>)
      else if s = ''socks5://10.0.0.1:1080?secrets=/etc/gost/secrets''
      then Inr (emptyNode\<lparr>Addr := ''10.0.0.1:1080'', Host := ''10.0.0.1:1080'',
                  Protocol := ''socks5'', Transport := ''tcp'',
                  Values := [(''secrets'', [''/etc/gost/secrets''])]\<rparr>)
      else if s = ''socks5://10.0.0.1:1080?secrets=/missing''
      then Inr (emptyNode\<lparr>Addr := ''10.0.0.1:1080'', Host := ''10.0.0.1:1080'',
                  Protocol := ''socks5'', Transport := ''tcp'',
                  Values := [(''secrets'', [''/missing''])]\<rparr>)
      else if s = ''socks5+tls://u:p@10.0.0.1:1080?auth=!!&secrets=/missing''
      then Inr (emptyNode\<lparr>Addr := ''10.0.0.1:1080'', Host := ''10.0.0.1:1080'',
                  Protocol := ''socks5'', Transport := ''tls'',
                  User := Some (url_UserPassword ''u'' ''p''),
                  Values := [(''auth'', [''!!'']), (''secrets'', [''/missing''])]\<rparr>)
      else if s = ''http2://10.0.0.1:443?cert=/etc/gost/cert.pem&key=/etc/gost/key.pem''
      then Inr (emptyNode\<lparr>Addr := ''10.0.0.1:443'', Host := ''10.0.0.1:443'',
                  Protocol := ''http2'', Transport := ''http2'',
                  Values := [(''cert'', [''/etc/gost/cert.pem'']),
                             (''key'', [''/etc/gost/key.pem''])]\<rparr>)
      else if s = ''http2://10.0.0.1:443?ca=/missing.pem''
      then Inr (emptyNode\<lparr>Addr := ''10.0.0.1:443'', Host := ''10.0.0.1:443'',
                  Protocol := ''http2'', Transport := ''http2'',
                  Values := [(''ca'', [''/missing.pem''])]\<rparr>)
      else if s = ''obfs4://10.0.0.1:443?ip=1.2.3.4,1.2.3.5''
      then Inr (emptyNode\<lparr>Addr := ''10.0.0.1:443'', Host := ''10.0.0.1:443'',
                  Protocol := ''obfs4'', Transport := ''obfs4'',
                  Values := [(''ip'', [''1.2.3.4,1.2.3.5''])]\<rparr>)
      else if s = ''socks5://10.0.0.1:1080?peer=/etc/gost/peers.txt''
      then Inr (emptyNode\<lparr>Addr := ''10.0.0.1:1080'', Host := ''10.0.0.1:1080'',
                  Protocol := ''socks5'', Transport := ''tcp'',
                  Values := [(''peer'', [''/etc/gost/peers.txt''])]\<rparr>)
      else if s = ''foo+bar://10.0.0.1:1080''
      then Inr (emptyNode\<lparr>Addr := ''10.0.0.1:1080'', Host := ''10.0.0.1:1080'',
                  Protocol := ''foo'', Transport := ''bar''\<rparr>)
      else if s = ''foo+tls://10.0.0.1:1080''
      then Inr (emptyNode\<lparr>Addr := ''10.0.0.1:1080'', Host := ''10.0.0.1:1080'',
                  Protocol := ''foo'', Transport := ''tls''\<rparr>)
      else if s = ''socks5://:1080''
      then Inr (emptyNode\<lparr>Addr := '':1080'', Host := '':1080'',
                  Protocol := ''socks5'', Transport := ''tcp''\<rparr>)
      else if s = ''socks5+tls://:8443?sourceInterface=eth7''
      then Inr (emptyNode\<lparr>Addr := '':8443'', Host := '':8443'',
                  Protocol := ''socks5'', Transport := ''tls'',
                  Values := [(''sourceInterface'', [''eth7''])]\<rparr>)
      else if s = ''tcp://:1080?sourceInterface=tailscale0''
      then Inr (emptyNode\<lparr>Addr := '':1080'', Host := '':1080'',
                  Protocol := ''tcp'', Transport := ''tcp'',
                  Values := [(''sourceInterface'', [''tailscale0''])]\<rparr>)
      else if s = ''tcp://:1080?sourceInterface=lo6''
      then Inr (emptyNode\<lparr>Addr := '':1080'', Host := '':1080'',
                  Protocol := ''tcp'', Transport := ''tcp'',
                  Values := [(''sourceInterface'', [''lo6''])]\<rparr>)
      else if s = ''tcp://:1080?sourceInterface=dummy0''
      then Inr (emptyNode\<lparr>Addr := '':1080'', Host := '':1080'',
                  Protocol := ''tcp'', Transport := ''tcp'',
                  Values := [(''sourceInterface'', [''dummy0''])]\<rparr>)
      else if s = ''foo://:1080/10.0.0.9:80''
      then Inr (emptyNode\<lparr>Addr := '':1080'', Host := '':1080'',
                  Protocol := ''foo'', Transport := ''tcp'', Remote := ''10.0.0.9:80''\<rparr>)
      else if s = ''tcp://:1080?sourceInterface=eth7''
      then Inr (emptyNode\<lparr>Addr := '':1080'', Host := '':1080'',
                  Protocol := ''tcp'', Transport := ''tcp'',
                  Values := [(''sourceInterface'', [''eth7''])]\<rparr>)
      else if s = ''tun://:8421?net=192.168.123.1/24&sourceInterface=eth7''
      then Inr (emptyNode\<lparr>Addr := '':8421'', Host := '':8421'',
                  Protocol := ''tun'', Transport := ''tun'',
                  Values := [(''net'', [''192.168.123.1/24'']),
                             (''sourceInterface'', [''eth7''])]\<rparr>)
      else Inl (Error ''invalid node''))"

definition sample_env :: env where
  "sample_env =
     \<lparr>ParseNode = sample_ParseNode,
      DecodeString =
        (\<lambda>s. if s = ''dTpw'' then Inr ''u:p''
             else Inl (Error ''illegal base64 data'')),
      parseUsers =
        (\<lambda>s. if s = [] then ([], None)
             else if s = ''/etc/gost/secrets''
             then ([url_UserPassword ''admin'' ''secret''], None)
             else ([], Some (Error ''no such file''))),
      SplitHostPort =
        (\<lambda>a. if a = ''10.0.0.1:1080'' then (''10.0.0.1'', ''1080'')
             else if a = ''10.0.0.1:443'' then (''10.0.0.1'', ''443'')
             else if a = ''proxy.example:1080'' then (''proxy.example'', ''1080'')
             else if a = '':1080'' then ([], ''1080'')
             else ([], [])),
      loadCA =
        (\<lambda>s. if s = [] then Inr None
             else if s = ''/etc/gost/ca.pem'' then Inr (Some (CertPool ''/etc/gost/ca.pem''))
             else Inl (Error ''no such file'')),
      LoadX509KeyPair =
        (\<lambda>c k. if c = ''/etc/gost/cert.pem'' \<and> k = ''/etc/gost/key.pem''
               then Inr (KeyPair c k)
               else Inl (Error ''no such file'')),
      x509_Verify =
        (\<lambda>c opts. if c = X509Cert ''leaf signed by /etc/gost/ca.pem''
                     \<and> Roots opts = CertPool ''/etc/gost/ca.pem''
                  then None
                  else Some (Error ''certificate signed by unknown authority'')),
      ValuesBool =
        (\<lambda>vs k. Values_Get vs k \<in> {''1'', ''t'', ''T'', ''TRUE'', ''true'', ''True''}),
      ValuesInt = (\<lambda>vs k. 0),
      ValuesDuration = (\<lambda>vs k. 0),
      parseKCPConfig = (\<lambda>s. if s = [] then Inr None else Inl (Error ''no such file'')),
      DefaultKCPConfig = \<lparr>TCP = False, KCPSettings = ''default''\<rparr>,
      ParseSSHKeyFile = (\<lambda>s. Inl (Error ''no such file'')),
      parseBypass = (\<lambda>s. if s = [] then None else Some (Bypass s)),
      parseIP =
        (\<lambda>s port. if s = ''1.2.3.4,1.2.3.5''
                  then (let p = (if port = [] then ''8080'' else port)
                        in [''1.2.3.4:'' @ p, ''1.2.3.5:'' @ p])
                  else []),
      Obfs4Init =
        (\<lambda>n server. if Addr n = ''1.2.3.5:443'' then Some (Error ''obfs4: missing cert'')
                    else None),
      os_Open =
        (\<lambda>s. if s = ''/etc/gost/peers.txt'' then None else Some (Error ''no such file'')),
      PeerReload =
        (\<lambda>cfg g base.
           g\<lparr>GroupNodes := base @
                [emptyNode\<lparr>ID := int (length base) + 1, Addr := ''10.0.0.2:1080'',
                           Host := ''10.0.0.2:1080'', Protocol := ''socks5'',
                           Transport := ''tcp''\<rparr>]\<rparr>),
      parseAuthenticator =
        (\<lambda>s. if s = [] then Inr None else Inl (Error ''no such file'')),
      tlsConfig = (\<lambda>c k ca. (None, None)),
      parseIPRoutes = (\<lambda>s. []),
      net_ParseIP = (\<lambda>s. None),
      ParseSSHAuthorizedKeysFile = (\<lambda>s. Inl (Error ''no such file'')),
      InterfaceByName =
        (\<lambda>s. if s = ''tailscale0'' then Inr \<lparr>IfName = s, IfIndex = 3\<rparr>
             else if s = ''lo6'' then Inr \<lparr>IfName = s, IfIndex = 1\<rparr>
             else if s = ''dummy0'' then Inr \<lparr>IfName = s, IfIndex = 2\<rparr>
             else Inl (Error ''no such network interface'')),
      InterfaceAddrs =
        (\<lambda>i. if IfName i = ''tailscale0''
             then Inr [IP [253, 122, 17, 92, 161, 224, 171, 18, 72, 67, 205, 150, 98, 64, 0, 1],
                       IP [100, 64, 0, 1]]
             else if IfName i = ''lo6''
             then Inr [IP [0, 0, 0, 0, 0, 0, 0, 0, 0, 0, 0, 0, 0, 0, 0, 1]]
             else Inr []),
      To4 = (\<lambda>a. case a of IP bs \<Rightarrow> if length bs = 4 then Some a else None),
      ResolveTCPAddr =
        (\<lambda>network a. if a = '':1080''
                     then Inr \<lparr>TCP_IP = IP [], TCP_Port = 1080, TCP_Zone = []\<rparr>
                     else Inl (Error ''unknown port'')),
      TCPAddr_String =
        (\<lambda>a. if a = \<lparr>TCP_IP = IP [100, 64, 0, 1], TCP_Port = 1080, TCP_Zone = []\<rparr>
             then ''100.64.0.1:1080''
             else ''<other>''),
      ParsePermissions = (\<lambda>s. Inr (Permissions s)),
      parseHosts = (\<lambda>s. None),
      parseResolver = (\<lambda>s. None),
      Listen = (\<lambda>c ln. None),
      ListenerAddr = (\<lambda>ln. ''bound'')\<rparr>"

definition sample_route :: "string list \<Rightarrow> string list \<Rightarrow> route" where
  "sample_route serve chain_specs =
     \<lparr>ServeNodes = serve, ChainNodes = chain_specs, Retries = 0, Mark = 0, Interface = []\<rparr>"

section \<open>Auxiliary facts\<close>

lemma Get_User_update [simp]: "Get (n\<lparr>User := u\<rparr>) k = Get n k"
  by (simp add: Get_def)

lemma expandIPs_nonempty: "expandIPs n h ips \<noteq> []"
  by (cases ips) (simp_all add: expandIPs_def)

lemma parseChainNode_nonempty: "parseChainNode E ns = Inr nodes \<Longrightarrow> nodes \<noteq> []"
  by (auto simp: parseChainNode_def Let_def expandIPs_nonempty split: sum.splits prod.splits if_splits option.splits)

lemma assignIDs_length [simp]: "length (assignIDs i ns) = length ns"
  by (induction ns arbitrary: i) auto

lemma assignIDs_nth: "k < length ns \<Longrightarrow> assignIDs i ns ! k = (ns ! k)\<lparr>ID := i + int k\<rparr>"
proof (induction ns arbitrary: i k)
  case Nil then show ?case by simp
next
  case (Cons n ns)
  show ?case
  proof (cases k)
    case 0 then show ?thesis by simp
  next
    case (Suc j)
    with Cons.prems have "j < length ns" by simp
    from Cons.IH[OF this, of "i + 1"] Suc show ?thesis by (simp add: add.assoc)
  qed
qed

lemma assignIDs_ids: "map ID (assignIDs i ns) = [i .. i + int (length ns) - 1]"
proof (induction ns arbitrary: i)
  case Nil then show ?case by simp
next
  case (Cons n ns)
  have "[i .. i + int (length (n # ns)) - 1] = i # [i + 1 .. i + 1 + int (length ns) - 1]"
    by (subst upto_rec1) (simp_all add: algebra_simps)
  with Cons.IH[of "i + 1"] show ?case by simp
qed

lemma groupOfNodes_no_panic: "nodes \<noteq> [] \<Longrightarrow> groupOfNodes E gid nodes \<noteq> Inl IndexPanic"
  by (cases nodes) (auto simp: groupOfNodes_def Let_def split: option.splits)

lemma parseChainGroup_no_panic: "parseChainGroup E gid ns \<noteq> Inl IndexPanic"
  using parseChainNode_nonempty groupOfNodes_no_panic
  by (auto simp: parseChainGroup_def split: sum.splits)

lemma parseChainLoop_no_panic: "parseChainLoop E gid c nss \<noteq> Inl IndexPanic"
  by (induction nss arbitrary: gid c) (auto simp: parseChainGroup_no_panic split: sum.splits)

lemma parseChain_no_panic: "parseChain E r \<noteq> Inl IndexPanic"
  by (simp add: parseChain_def parseChainLoop_no_panic)

lemma Get_updates [simp]:
  "Get (n\<lparr>DialOptions := d\<rparr>) k = Get n k"
  "Get (n\<lparr>ConnectOptions := co\<rparr>) k = Get n k"
  "Get (n\<lparr>HandshakeOptions := h\<rparr>) k = Get n k"
  "Get (n\<lparr>Client := cl\<rparr>) k = Get n k"
  "Get (n\<lparr>NodeBypass := b\<rparr>) k = Get n k"
  "Get (n\<lparr>Addr := a\<rparr>) k = Get n k"
  "Get (n\<lparr>ID := i\<rparr>) k = Get n k"
  by (simp_all add: Get_def)

lemma GetBool_updates [simp]:
  "GetBool E (n\<lparr>DialOptions := d\<rparr>) k = GetBool E n k"
  "GetBool E (n\<lparr>ConnectOptions := co\<rparr>) k = GetBool E n k"
  "GetBool E (n\<lparr>User := u\<rparr>) k = GetBool E n k"
  by (simp_all add: GetBool_def)

lemma authUser_fields: "authUser E n0 = Inr n1 \<Longrightarrow> n1 = n0\<lparr>User := User n1\<rparr>"
  by (auto simp: authUser_def split: if_splits sum.splits)

lemma secretsUser_fields: "secretsUser E n0 = Inr n1 \<Longrightarrow> n1 = n0\<lparr>User := User n1\<rparr>"
  by (auto simp: secretsUser_def split: if_splits sum.splits prod.splits option.splits list.splits)

lemma chainUser_fields: "chainUser E n0 = Inr n1 \<Longrightarrow> n1 = n0\<lparr>User := User n1\<rparr>"
proof -
  assume a: "chainUser E n0 = Inr n1"
  then obtain m where m: "authUser E n0 = Inr m" "secretsUser E m = Inr n1"
    by (auto simp: chainUser_def split: sum.splits)
  from authUser_fields[OF m(1)] secretsUser_fields[OF m(2)]
  have "n1 = (n0\<lparr>User := User m\<rparr>)\<lparr>User := User n1\<rparr>" by simp
  then show ?thesis by simp
qed

lemma chainSSHConfig_frame [simp]:
  "chainSSHConfig E (n\<lparr>DialOptions := d\<rparr>) = chainSSHConfig E n"
  "chainSSHConfig E (n\<lparr>ConnectOptions := co\<rparr>) = chainSSHConfig E n"
  by (simp_all add: chainSSHConfig_def Let_def)

lemma chainBaseE:
  assumes "chainBase E ns = Inr (n, h, sport)"
  obtains n0 n1 tlsCfg tr sshConfig where
    "ParseNode E ns = Inr n0"
    "chainUser E n0 = Inr n1"
    "chainTLS E n1 = Inr (tlsCfg, sport)"
    "chainTransporter E n1 tlsCfg = Inr tr"
    "chainSSHConfig E n1 = Inr sshConfig"
    "n = n1\<lparr>DialOptions := DialOptions n1 @
               [TimeoutDialOption (GetDuration E n1 ''timeout''),
                HostDialOption (if Get n1 ''host'' = [] then Host n1 else Get n1 ''host'')],
             ConnectOptions :=
               [UserAgentConnectOption (Get n1 ''agent''),
                NoTLSConnectOption (GetBool E n1 ''notls''),
                NoDelayConnectOption (GetBool E n1 ''nodelay'')],
             Client := Some \<lparr>Connector = chainConnector n1, Transporter = tr\<rparr>,
             NodeBypass := parseBypass E (Get n1 ''bypass'')\<rparr>"
    "h = [AddrHandshakeOption (Addr n1),
          HostHandshakeOption (if Get n1 ''host'' = [] then Host n1 else Get n1 ''host''),
          UserHandshakeOption (User n1),
          TLSConfigHandshakeOption tlsCfg,
          IntervalHandshakeOption (GetDuration E n1 ''ping''),
          TimeoutHandshakeOption (GetDuration E n1 ''timeout''),
          RetryHandshakeOption (GetInt E n1 ''retry''),
          SSHConfigHandshakeOption sshConfig]"
  using assms unfolding chainBase_def Let_def
  by (auto simp: GetInt_def GetDuration_def split: sum.splits prod.splits)

lemma addIntermediates_Suc: "addIntermediates (Suc i) cs pool = pool @ cs"
  by (induction cs arbitrary: i pool) auto

lemma addIntermediates_tl: "addIntermediates 0 (leaf # rest) [] = rest"
  by (simp add: addIntermediates_Suc)

lemma obfs4InitAll_Some_iff:
  "(\<exists>e. obfs4InitAll E nds = Some e) \<longleftrightarrow> (\<exists>nd \<in> set nds. \<exists>e. Obfs4Init E nd False = Some e)"
  by (induction nds) (auto split: option.splits)

lemma parseChainNodeE:
  assumes "parseChainNode E ns = Inr nodes"
  obtains n h sport where
    "chainBase E ns = Inr (n, h, sport)"
    "nodes = expandIPs n h (parseIP E (Get n ''ip'') sport)"
  using assms unfolding parseChainNode_def Let_def
  by (auto split: sum.splits prod.splits if_splits option.splits)

lemma expandIPs_User: "nd \<in> set (expandIPs n h ips) \<Longrightarrow> User nd = User n"
  by (cases ips) (auto simp: expandIPs_def Clone_def)


lemma groupOfNodes_Inr:
  assumes "groupOfNodes E gid nodes = Inr g"
  shows "\<exists>G. GroupID G = gid \<and> GroupNodes G = assignIDs 1 nodes
           \<and> g = (if Get (hd nodes) ''peer'' = [] then G
                   else (PeerReload E (Get (hd nodes) ''peer'') G (GroupNodes G))
                          \<lparr>PeerFile := Some (Get (hd nodes) ''peer'')\<rparr>)"
proof (cases nodes)
  case Nil
  with assms show ?thesis by (simp add: groupOfNodes_def)
next
  case (Cons x xs)
  let ?G = "\<lparr>GroupID = gid, GroupNodes = assignIDs 1 nodes,
             GroupSelector = Some \<lparr>MaxFails = GetInt E (x\<lparr>ID := 1\<rparr>) ''max_fails'',
                                   FailTimeout = GetDuration E (x\<lparr>ID := 1\<rparr>) ''fail_timeout'',
                                   SelStrategy = NewStrategy (Get x ''strategy'')\<rparr>,
             PeerFile = None\<rparr>"
  from assms Cons
  have "g = (if Get (hd nodes) ''peer'' = [] then ?G
             else (PeerReload E (Get (hd nodes) ''peer'') ?G (GroupNodes ?G))
                    \<lparr>PeerFile := Some (Get (hd nodes) ''peer'')\<rparr>)"
    by (auto simp: groupOfNodes_def Let_def split: if_splits option.splits)
  then show ?thesis by (intro exI[of _ ?G]) simp
qed

lemma parseChainGroup_Inr:
  assumes "parseChainGroup E gid ns = Inr g"
  shows "\<exists>nodes G. parseChainNode E ns = Inr nodes
           \<and> GroupID G = gid \<and> GroupNodes G = assignIDs 1 nodes
           \<and> g = (if Get (hd nodes) ''peer'' = [] then G
                   else (PeerReload E (Get (hd nodes) ''peer'') G (GroupNodes G))
                          \<lparr>PeerFile := Some (Get (hd nodes) ''peer'')\<rparr>)"
proof -
  from assms obtain nodes where n: "parseChainNode E ns = Inr nodes"
    and g: "groupOfNodes E gid nodes = Inr g"
    by (auto simp: parseChainGroup_def split: sum.splits)
  from groupOfNodes_Inr[OF g] n show ?thesis by blast
qed

lemma parseChainLoop_Inr:
  "parseChainLoop E gid c nss = Inr c' \<Longrightarrow>
     (\<exists>gs. NodeGroups c' = NodeGroups c @ gs \<and> length gs = length nss
         \<and> (\<forall>k < length nss. parseChainGroup E (gid + int k) (nss ! k) = Inr (gs ! k)))"
proof (induction nss arbitrary: gid c)
  case Nil then show ?case by simp
next
  case (Cons ns rest)
  from Cons.prems obtain g where g: "parseChainGroup E gid ns = Inr g"
    and l: "parseChainLoop E (gid + 1) (c\<lparr>NodeGroups := NodeGroups c @ [g]\<rparr>) rest = Inr c'"
    by (auto split: sum.splits)
  from Cons.IH[OF l] obtain gs where gs: "NodeGroups c' = (NodeGroups c @ [g]) @ gs"
    "length gs = length rest"
    "\<forall>k < length rest. parseChainGroup E (gid + 1 + int k) (rest ! k) = Inr (gs ! k)"
    by auto
  have "\<forall>k < length (ns # rest). parseChainGroup E (gid + int k) ((ns # rest) ! k) = Inr ((g # gs) ! k)"
  proof (intro allI impI)
    fix k assume k: "k < length (ns # rest)"
    show "parseChainGroup E (gid + int k) ((ns # rest) ! k) = Inr ((g # gs) ! k)"
    proof (cases k)
      case 0 with g show ?thesis by simp
    next
      case (Suc j)
      with k have "j < length rest" by simp
      with gs(3) have "parseChainGroup E (gid + 1 + int j) (rest ! j) = Inr (gs ! j)" by simp
      with Suc show ?thesis by (simp add: algebra_simps)
    qed
  qed
  with gs(1,2) show ?case by (intro exI[of _ "g # gs"]) simp
qed

lemma IndexByte_ge: "- 1 \<le> IndexByte cs c"
  by (induction cs) (auto simp: Let_def)

lemma IndexByte_absent: "c \<notin> set cs \<Longrightarrow> IndexByte cs c = - 1"
  by (induction cs) (auto simp: Let_def)

lemma IndexByte_first: "c \<notin> set a \<Longrightarrow> IndexByte (a @ c # b) c = int (length a)"
  by (induction a) (auto simp: Let_def)

lemma userOfToken_no_colon: "CHR '':'' \<notin> set cs \<Longrightarrow> userOfToken cs = url_User cs"
  by (simp add: userOfToken_def IndexByte_absent)

lemma userOfToken_colon:
  "CHR '':'' \<notin> set a \<Longrightarrow> userOfToken (a @ CHR '':'' # b) = url_UserPassword a b"
  by (simp add: userOfToken_def IndexByte_first Let_def nat_add_distrib)

lemma chainBase_User:
  assumes "chainBase E ns = Inr (n, h, sport)" "ParseNode E ns = Inr n0"
  shows "\<exists>n1. chainUser E n0 = Inr n1 \<and> User n = User n1"
  using assms(1)
proof (rule chainBaseE)
  fix m0 n1 tlsCfg tr sshConfig
  assume "ParseNode E ns = Inr m0" "chainUser E m0 = Inr n1"
    and n: "n = n1\<lparr>DialOptions := DialOptions n1 @
               [TimeoutDialOption (GetDuration E n1 ''timeout''),
                HostDialOption (if Get n1 ''host'' = [] then Host n1 else Get n1 ''host'')],
             ConnectOptions :=
               [UserAgentConnectOption (Get n1 ''agent''),
                NoTLSConnectOption (GetBool E n1 ''notls''),
                NoDelayConnectOption (GetBool E n1 ''nodelay'')],
             Client := Some \<lparr>Connector = chainConnector n1, Transporter = tr\<rparr>,
             NodeBypass := parseBypass E (Get n1 ''bypass'')\<rparr>"
  with assms(2) have "chainUser E n0 = Inr n1" by simp
  moreover from n have "User n = User n1" by simp
  ultimately show ?thesis by blast
qed

lemma chainTLS_Inl: "chainTLS E n = Inl e \<longleftrightarrow> loadCA E (Get n ''ca'') = Inl e"
  by (auto simp: chainTLS_def Let_def split: prod.splits sum.splits option.splits)

lemma chainTLS_Inr:
  assumes "chainTLS E n = Inr (cfg, sport)"
  shows "loadCA E (Get n ''ca'') = Inr (RootCAs cfg)"
    and "sport = snd (SplitHostPort E (Addr n))"
    and "ServerName cfg = (if fst (SplitHostPort E (Addr n)) = [] then ''localhost''
                           else fst (SplitHostPort E (Addr n)))"
    and "InsecureSkipVerify cfg = (\<not> GetBool E n ''secure'')"
    and "VerifyConnection cfg =
           (case RootCAs cfg of
              None \<Rightarrow> None
            | Some pool \<Rightarrow> if GetBool E n ''secure'' then None else Some (VerifyAgainst pool))"
    and "Certificates cfg =
           (case LoadX509KeyPair E (Get n ''cert'') (Get n ''key'') of
              Inl _ \<Rightarrow> [] | Inr cert \<Rightarrow> [cert])"
  using assms
  by (auto simp: chainTLS_def Let_def split: prod.splits sum.splits option.splits if_splits)

lemma chainBase_TLS:
  assumes "chainBase E ns = Inr (b, h, sport)"
  shows "\<exists>n1 cfg. chainTLS E n1 = Inr (cfg, sport) \<and> Addr n1 = Addr b \<and> Values n1 = Values b
            \<and> h ! 3 = TLSConfigHandshakeOption cfg"
  using assms by (rule chainBaseE) auto

lemma Inr_projr: "\<not> isl x \<Longrightarrow> x = Inr (projr x)"
  by (cases x) auto

lemma chainUser_Values: "chainUser E n0 = Inr n1 \<Longrightarrow> Values n1 = Values n0"
  by (drule chainUser_fields) (metis node.select_convs(8) node.surjective node.update_convs(7))

lemma chainBase_Inl_ParseNode: "ParseNode E ns = Inl e \<Longrightarrow> chainBase E ns = Inl e"
  by (simp add: chainBase_def)

lemma chainBase_Inl_chainUser:
  "ParseNode E ns = Inr n0 \<Longrightarrow> chainUser E n0 = Inl e \<Longrightarrow> chainBase E ns = Inl e"
  by (simp add: chainBase_def)

lemma chainBase_Inl_loadCA:
  assumes "ParseNode E ns = Inr n0" "loadCA E (Get n0 ''ca'') = Inl e"
  shows "\<exists>e'. chainBase E ns = Inl e'"
proof (cases "chainUser E n0")
  case (Inl e') with assms(1) show ?thesis by (auto dest: chainBase_Inl_chainUser)
next
  case (Inr n1)
  then have "Get n1 ''ca'' = Get n0 ''ca''" by (simp add: Get_def chainUser_Values)
  with assms(2) have "chainTLS E n1 = Inl e" by (simp add: chainTLS_Inl)
  with assms(1) Inr show ?thesis by (simp add: chainBase_def)
qed

lemma parseChainNode_Inl_base: "chainBase E ns = Inl e \<Longrightarrow> parseChainNode E ns = Inl e"
  by (simp add: parseChainNode_def)

lemma serveAuth_fields: "serveAuth E n0 = Inr (n, a) \<Longrightarrow> n = n0\<lparr>User := User n\<rparr>"
  unfolding serveAuth_def Let_def
  by (auto split: sum.splits option.splits list.splits if_splits dest!: authUser_fields)

lemma serveRouter_Inr:
  "serveRouter E n auth tlsCfg ln = Inr rt \<Longrightarrow>
     RouterListener rt = ln \<and> HandlerKind (RouterHandler rt) = serveHandler n
   \<and> RouterNode rt = n\<lparr>NodeBypass := parseBypass E (Get n ''bypass'')\<rparr>"
  unfolding serveRouter_def Let_def
  by (auto split: sum.splits if_splits)

lemma serveNodeE:
  assumes "serveNode E c ns = Inr (rt, c')"
  obtains n0 n auth tlsCfg ln where
    "ParseNode E ns = Inr n0"
    "serveAuth E n0 = Inr (n, auth)"
    "serveTLS E n = Inr tlsCfg"
    "serveListener E c n tlsCfg auth = Inr (ln, c')"
    "Listen E c' ln = None"
    "RouterListener rt = ln"
    "HandlerKind (RouterHandler rt) = serveHandler n"
    "RouterNode rt = n\<lparr>NodeBypass := parseBypass E (Get n ''bypass'')\<rparr>"
proof -
  from assms obtain n0 n auth tlsCfg ln where
    h: "ParseNode E ns = Inr n0" "serveAuth E n0 = Inr (n, auth)" "serveTLS E n = Inr tlsCfg"
       "serveListener E c n tlsCfg auth = Inr (ln, c')" "Listen E c' ln = None"
       "serveRouter E n auth tlsCfg ln = Inr rt"
    unfolding serveNode_def by (auto split: sum.splits prod.splits option.splits)
  from serveRouter_Inr[OF h(6)] h(1-5) that show thesis by blast
qed

lemma serveLoop_Inr:
  "serveLoop E c rts nss = Inr (rts', c') \<Longrightarrow>
     \<exists>new. rts' = rts @ new \<and> length new = length nss
        \<and> (\<forall>k < length nss. \<exists>ck ck'. serveNode E ck (nss ! k) = Inr (new ! k, ck'))"
proof (induction nss arbitrary: c rts)
  case Nil then show ?case by simp
next
  case (Cons ns rest)
  from Cons.prems obtain rt c1 where s: "serveNode E c ns = Inr (rt, c1)"
    and l: "serveLoop E c1 (rts @ [rt]) rest = Inr (rts', c')"
    by (auto split: sum.splits)
  from Cons.IH[OF l] obtain new where new: "rts' = (rts @ [rt]) @ new" "length new = length rest"
    "\<forall>k < length rest. \<exists>ck ck'. serveNode E ck (rest ! k) = Inr (new ! k, ck')" by blast
  have "\<forall>k < length (ns # rest). \<exists>ck ck'. serveNode E ck ((ns # rest) ! k) = Inr ((rt # new) ! k, ck')"
  proof (intro allI impI)
    fix k assume "k < length (ns # rest)"
    then show "\<exists>ck ck'. serveNode E ck ((ns # rest) ! k) = Inr ((rt # new) ! k, ck')"
      using s new(3) by (cases k) auto
  qed
  with new(1,2) show ?case by (intro exI[of _ "rt # new"]) simp
qed

lemma serveLoop_Inl:
  "ns \<in> set nss \<Longrightarrow> (\<And>c. \<exists>e. serveNode E c ns = Inl e) \<Longrightarrow> \<exists>e. serveLoop E c rts nss = Inl e"
proof (induction nss arbitrary: c rts)
  case Nil then show ?case by simp
next
  case (Cons x rest)
  show ?case
  proof (cases "serveNode E c x")
    case (Inl e) then show ?thesis by simp
  next
    case (Inr p)
    obtain rt c1 where p: "p = (rt, c1)" by (cases p)
    from Inr Cons.prems(2)[of c] have "x \<noteq> ns" by auto
    with Cons.prems(1) have "ns \<in> set rest" by simp
    from Cons.IH[OF this Cons.prems(2), of c1 "rts @ [rt]"] Inr p show ?thesis by simp
  qed
qed

lemma GenRouters_Inl:
  assumes "ns \<in> set (ServeNodes r)" "\<And>c. \<exists>e. serveNode E c ns = Inl e"
  shows "\<exists>f. GenRouters E r = Inl f"
proof (cases "parseChain E r")
  case (Inl f) then show ?thesis by (simp add: GenRouters_def)
next
  case (Inr chain)
  from serveLoop_Inl[OF assms, of chain "[]"] obtain e
    where "serveLoop E chain [] (ServeNodes r) = Inl e" by blast
  with Inr show ?thesis by (simp add: GenRouters_def)
qed

lemma GenRouters_Inr:
  assumes "GenRouters E r = Inr (rts, c)"
  shows "length rts = length (ServeNodes r)
       \<and> (\<forall>k < length (ServeNodes r). \<exists>ck ck'. serveNode E ck (ServeNodes r ! k) = Inr (rts ! k, ck'))"
proof -
  from assms obtain chain where "serveLoop E chain [] (ServeNodes r) = Inr (rts, c)"
    by (auto simp: GenRouters_def split: sum.splits)
  from serveLoop_Inr[OF this] show ?thesis by auto
qed

lemma ipv4Loop_None: "ipv4Loop E None addrs = None \<longleftrightarrow> (\<forall>a \<in> set addrs. To4 E a = None)"
  by (induction addrs) (auto split: option.splits)

lemma ipv4Loop_Some:
  "ipv4Loop E None addrs = Some ip \<longleftrightarrow>
     (\<exists>pre a post. addrs = pre @ a # post \<and> (\<forall>x \<in> set pre. To4 E x = None) \<and> To4 E a = Some ip)"
proof (induction addrs)
  case Nil then show ?case by simp
next
  case (Cons x xs)
  show ?case
  proof (cases "To4 E x")
    case None
    have "(\<exists>pre a post. x # xs = pre @ a # post \<and> (\<forall>y \<in> set pre. To4 E y = None) \<and> To4 E a = Some ip)
        \<longleftrightarrow> (\<exists>pre a post. xs = pre @ a # post \<and> (\<forall>y \<in> set pre. To4 E y = None) \<and> To4 E a = Some ip)"
      (is "?L \<longleftrightarrow> ?R")
    proof
      assume ?L
      then obtain pre a post where h: "x # xs = pre @ a # post" "\<forall>y \<in> set pre. To4 E y = None"
        "To4 E a = Some ip" by blast
      with None obtain pre' where "pre = x # pre'" by (cases pre) auto
      with h show ?R by auto
    next
      assume ?R
      then obtain pre a post where h: "xs = pre @ a # post" "\<forall>y \<in> set pre. To4 E y = None"
        "To4 E a = Some ip" by blast
      with None have "x # xs = (x # pre) @ a # post \<and> (\<forall>y \<in> set (x # pre). To4 E y = None)" by simp
      with h(3) show ?L by blast
    qed
    with None Cons.IH show ?thesis by simp
  next
    case (Some v)
    have "(\<exists>pre a post. x # xs = pre @ a # post \<and> (\<forall>y \<in> set pre. To4 E y = None) \<and> To4 E a = Some ip)
        \<longleftrightarrow> v = ip" (is "?L \<longleftrightarrow> _")
    proof
      assume ?L
      then obtain pre a post where h: "x # xs = pre @ a # post" "\<forall>y \<in> set pre. To4 E y = None"
        "To4 E a = Some ip" by blast
      with Some show "v = ip" by (cases pre) auto
    next
      assume "v = ip"
      with Some have "x # xs = [] @ x # xs \<and> (\<forall>y \<in> set []. To4 E y = None) \<and> To4 E x = Some ip" by simp
      then show ?L by blast
    qed
    with Some show ?thesis by simp
  qed
qed

lemma listenerAddr_serveListener:
  assumes "serveListener E c n tlsCfg auth = Inr (ln, c')" "Transport n \<noteq> ''tcp''"
  shows "listenerAddr ln = (if Transport n = ''tun'' \<or> Transport n = ''tap'' then None else Some (Addr n))"
  using assms unfolding serveListener_def Let_def
  by (auto split: if_splits sum.splits option.splits)

lemma serveAuth_Transport: "serveAuth E n0 = Inr (n, a) \<Longrightarrow>
  Transport n = Transport n0 \<and> Values n = Values n0 \<and> Addr n = Addr n0
  \<and> Protocol n = Protocol n0 \<and> Remote n = Remote n0"
proof -
  assume "serveAuth E n0 = Inr (n, a)"
  then have "n = n0\<lparr>User := User n\<rparr>" by (rule serveAuth_fields)
  then have "Transport n = Transport (n0\<lparr>User := User n\<rparr>)"
    "Values n = Values (n0\<lparr>User := User n\<rparr>)" "Addr n = Addr (n0\<lparr>User := User n\<rparr>)"
    "Protocol n = Protocol (n0\<lparr>User := User n\<rparr>)" "Remote n = Remote (n0\<lparr>User := User n\<rparr>)"
    by simp_all
  then show ?thesis by simp
qed

lemma tcpListenAddr_Inl:
  assumes "Get n ''sourceInterface'' \<noteq> []"
    and "(\<exists>e. InterfaceByName E (Get n ''sourceInterface'') = Inl e)
       \<or> (\<exists>ief. InterfaceByName E (Get n ''sourceInterface'') = Inr ief
             \<and> ((\<exists>e. InterfaceAddrs E ief = Inl e)
                \<or> (\<exists>addrs. InterfaceAddrs E ief = Inr addrs \<and> (\<forall>a \<in> set addrs. To4 E a = None))))"
  shows "\<exists>e. tcpListenAddr E n = Inl e"
  using assms unfolding tcpListenAddr_def Let_def
  by (auto simp: ipv4Loop_None[symmetric] split: sum.splits option.splits)

lemma tcpListenAddr_Inr:
  assumes "tcpListenAddr E n = Inr addr" "Get n ''sourceInterface'' \<noteq> []"
  shows "\<exists>ief addrs ip laddr.
           InterfaceByName E (Get n ''sourceInterface'') = Inr ief
         \<and> InterfaceAddrs E ief = Inr addrs
         \<and> ipv4Loop E None addrs = Some ip
         \<and> ResolveTCPAddr E ''tcp'' (Addr n) = Inr laddr
         \<and> addr = TCPAddr_String E
              \<lparr>TCP_IP = ip, TCP_Port = TCP_Port laddr, TCP_Zone = TCP_Zone laddr\<rparr>"
  using assms unfolding tcpListenAddr_def Let_def
  by (auto split: sum.splits option.splits)

lemma serveListener_tcp:
  "Transport n = ''tcp'' \<Longrightarrow>
   serveListener E c n tlsCfg auth =
     (case tcpListenAddr E n of
        Inl e \<Rightarrow> Inl e
      | Inr addr \<Rightarrow>
          Inr (TCPListener addr,
               if lastIsForwardSSH c
               then setLastClient SSHDirectForwardConnector SSHForwardTransporter c else c))"
  by (simp add: serveListener_def Let_def)

lemma serveNode_tcp_fails:
  assumes "ParseNode E ns = Inr n0" "Transport n0 = ''tcp''" "Get n0 ''sourceInterface'' \<noteq> []"
    and "(\<exists>e. InterfaceByName E (Get n0 ''sourceInterface'') = Inl e)
       \<or> (\<exists>ief. InterfaceByName E (Get n0 ''sourceInterface'') = Inr ief
             \<and> ((\<exists>e. InterfaceAddrs E ief = Inl e)
                \<or> (\<exists>addrs. InterfaceAddrs E ief = Inr addrs \<and> (\<forall>a \<in> set addrs. To4 E a = None))))"
  shows "\<exists>e. serveNode E c ns = Inl e"
proof (cases "serveAuth E n0")
  case (Inl e) with assms(1) show ?thesis by (simp add: serveNode_def)
next
  case (Inr p)
  obtain n auth where p: "p = (n, auth)" by (cases p)
  from Inr p have f: "Transport n = Transport n0" "Values n = Values n0"
    by (auto dest: serveAuth_Transport)
  then have g: "Get n ''sourceInterface'' = Get n0 ''sourceInterface''" by (simp add: Get_def)
  from tcpListenAddr_Inl[of n E] g assms(3,4) obtain e where e: "tcpListenAddr E n = Inl e"
    by auto
  show ?thesis
  proof (cases "serveTLS E n")
    case (Inl e') with assms(1) Inr p show ?thesis by (simp add: serveNode_def)
  next
    case (Inr tlsCfg)
    from f assms(2) e have "serveListener E c n tlsCfg auth = Inl e"
      by (simp add: serveListener_tcp)
    with assms(1) \<open>serveAuth E n0 = Inr p\<close> p Inr show ?thesis
      by (simp add: serveNode_def Let_def)
  qed
qed

lemma serveNode_tcp_listener:
  assumes "serveNode E c ns = Inr (rt, c')" "ParseNode E ns = Inr n0" "Transport n0 = ''tcp''"
    "Get n0 ''sourceInterface'' \<noteq> []"
  shows "\<exists>ief addrs ip laddr.
           InterfaceByName E (Get n0 ''sourceInterface'') = Inr ief
         \<and> InterfaceAddrs E ief = Inr addrs
         \<and> ipv4Loop E None addrs = Some ip
         \<and> ResolveTCPAddr E ''tcp'' (Addr n0) = Inr laddr
         \<and> RouterListener rt = TCPListener (TCPAddr_String E
              \<lparr>TCP_IP = ip, TCP_Port = TCP_Port laddr, TCP_Zone = TCP_Zone laddr\<rparr>)"
  using assms(1)
proof (rule serveNodeE)
  fix m0 n auth tlsCfg ln
  assume h: "ParseNode E ns = Inr m0" "serveAuth E m0 = Inr (n, auth)"
    "serveListener E c n tlsCfg auth = Inr (ln, c')" "RouterListener rt = ln"
  with assms(2) have m0: "m0 = n0" by simp
  from h(2) m0 have f: "Transport n = Transport n0" "Values n = Values n0" "Addr n = Addr n0"
    by (auto dest: serveAuth_Transport)
  then have g: "Get n ''sourceInterface'' = Get n0 ''sourceInterface''" by (simp add: Get_def)
  from h(3) f(1) assms(3) obtain addr where a: "tcpListenAddr E n = Inr addr" "ln = TCPListener addr"
    by (auto simp: serveListener_tcp split: sum.splits)
  from tcpListenAddr_Inr[OF a(1)] g assms(4) f(3) a(2) h(4) show ?thesis by auto
qed

lemma serveSSHConfig_frame:
  "serveSSHConfig (E\<lparr>InterfaceByName := f, InterfaceAddrs := g, To4 := t,
                      ResolveTCPAddr := rs, TCPAddr_String := st\<rparr>) n tlsCfg auth
     = serveSSHConfig E n tlsCfg auth"
  by (simp add: serveSSHConfig_def Let_def cong: sum.case_cong if_cong)

lemma kcpConfig_frame:
  "kcpConfig (E\<lparr>InterfaceByName := f, InterfaceAddrs := g, To4 := t,
                 ResolveTCPAddr := rs, TCPAddr_String := st\<rparr>) n = kcpConfig E n"
  by (simp add: kcpConfig_def GetBool_def Let_def cong: sum.case_cong option.case_cong)

lemma serveListener_frame:
  assumes "Transport n \<noteq> ''tcp''"
  shows "serveListener (E\<lparr>InterfaceByName := f, InterfaceAddrs := g, To4 := t,
                           ResolveTCPAddr := rs, TCPAddr_String := st\<rparr>) c n tlsCfg auth
       = serveListener E c n tlsCfg auth"
  using assms
  by (simp add: serveListener_def serveWSOptions_def serveTunRoutes_def kcpConfig_frame
      serveSSHConfig_frame GetBool_def GetInt_def GetDuration_def Let_def)

lemma serveRouter_frame:
  "serveRouter (E\<lparr>InterfaceByName := f, InterfaceAddrs := g, To4 := t,
                   ResolveTCPAddr := rs, TCPAddr_String := st\<rparr>) n auth tlsCfg ln
     = serveRouter E n auth tlsCfg ln"
proof -
  let ?E = "E\<lparr>InterfaceByName := f, InterfaceAddrs := g, To4 := t,
               ResolveTCPAddr := rs, TCPAddr_String := st\<rparr>"
  have p: "\<And>k. servePermissions ?E n k = servePermissions E n k"
    by (simp add: servePermissions_def)
  show ?thesis
  proof (cases "servePermissions E n ''whitelist''")
    case (Inl e) with p show ?thesis by (simp add: serveRouter_def)
  next
    case w: (Inr whitelist)
    show ?thesis
    proof (cases "servePermissions E n ''blacklist''")
      case (Inl e) with p w show ?thesis by (simp add: serveRouter_def)
    next
      case (Inr blacklist)
      with p w show ?thesis
        by (simp add: serveRouter_def serveTunRoutes_def GetBool_def GetInt_def GetDuration_def
            Let_def)
    qed
  qed
qed

lemma serveAuth_frame:
  "serveAuth (E\<lparr>InterfaceByName := f, InterfaceAddrs := g, To4 := t,
                 ResolveTCPAddr := rs, TCPAddr_String := st\<rparr>) n0 = serveAuth E n0"
  by (simp add: serveAuth_def authUser_def Let_def cong: sum.case_cong option.case_cong if_cong)

lemma serveNode_frame:
  assumes "ParseNode E ns = Inr n0" "Transport n0 \<noteq> ''tcp''"
  shows "serveNode (E\<lparr>InterfaceByName := f, InterfaceAddrs := g, To4 := t,
                       ResolveTCPAddr := rs, TCPAddr_String := st\<rparr>) c ns
       = serveNode E c ns"
proof -
  let ?E = "E\<lparr>InterfaceByName := f, InterfaceAddrs := g, To4 := t,
               ResolveTCPAddr := rs, TCPAddr_String := st\<rparr>"
  have t: "\<And>n. serveTLS ?E n = serveTLS E n" by (simp add: serveTLS_def)
  have l: "\<And>n auth tlsCfg. serveAuth E n0 = Inr (n, auth) \<Longrightarrow>
      serveListener ?E c n tlsCfg auth = serveListener E c n tlsCfg auth"
    using assms(2) by (intro serveListener_frame) (auto dest: serveAuth_Transport)
  show ?thesis
  proof (cases "serveAuth E n0")
    case (Inl e) with assms(1) show ?thesis by (simp add: serveNode_def serveAuth_frame)
  next
    case (Inr q)
    obtain n auth where q: "q = (n, auth)" by (cases q)
    show ?thesis
    proof (cases "serveTLS E n")
      case (Inl e) with assms(1) t Inr q show ?thesis by (simp add: serveNode_def serveAuth_frame)
    next
      case tls: (Inr tlsCfg)
      from l[of n auth tlsCfg] Inr q
      have l': "serveListener ?E c n tlsCfg auth = serveListener E c n tlsCfg auth" by simp
      show ?thesis
      proof (cases "serveListener E c n tlsCfg auth")
        case (Inl e)
        with assms(1) t Inr q tls l' show ?thesis by (simp add: serveNode_def serveAuth_frame)
      next
        case lis: (Inr p)
        obtain ln c1 where p: "p = (ln, c1)" by (cases p)
        from assms(1) t Inr q tls l' lis p show ?thesis
          by (simp add: serveNode_def serveAuth_frame serveRouter_frame cong: option.case_cong)
      qed
    qed
  qed
qed

lemma chainBase_Client:
  assumes "chainBase E ns = Inr (b, h, sport)" "ParseNode E ns = Inr n0"
  shows "\<exists>n1 tlsCfg tr. chainUser E n0 = Inr n1 \<and> chainTransporter E n1 tlsCfg = Inr tr
           \<and> Client b = Some \<lparr>Connector = chainConnector n1, Transporter = tr\<rparr>
           \<and> User b = User n1"
  using assms(1)
proof (rule chainBaseE)
  fix m0 n1 tlsCfg tr sshConfig
  assume h: "ParseNode E ns = Inr m0" "chainUser E m0 = Inr n1"
    "chainTransporter E n1 tlsCfg = Inr tr"
    and n: "b = n1\<lparr>DialOptions := DialOptions n1 @
               [TimeoutDialOption (GetDuration E n1 ''timeout''),
                HostDialOption (if Get n1 ''host'' = [] then Host n1 else Get n1 ''host'')],
             ConnectOptions :=
               [UserAgentConnectOption (Get n1 ''agent''),
                NoTLSConnectOption (GetBool E n1 ''notls''),
                NoDelayConnectOption (GetBool E n1 ''nodelay'')],
             Client := Some \<lparr>Connector = chainConnector n1, Transporter = tr\<rparr>,
             NodeBypass := parseBypass E (Get n1 ''bypass'')\<rparr>"
  from h(1) assms(2) have "m0 = n0" by simp
  with h n show ?thesis by auto
qed

lemma chainUser_Transport:
  assumes "chainUser E n0 = Inr n1"
  shows "Transport n1 = Transport n0 \<and> Protocol n1 = Protocol n0"
proof -
  from assms have "n1 = n0\<lparr>User := User n1\<rparr>" by (rule chainUser_fields)
  then have "Transport n1 = Transport (n0\<lparr>User := User n1\<rparr>)"
    "Protocol n1 = Protocol (n0\<lparr>User := User n1\<rparr>)" by simp_all
  then show ?thesis by simp
qed




lemma obfs4InitAll_None_iff:
  "obfs4InitAll E nds = None \<longleftrightarrow> (\<forall>nd \<in> set nds. Obfs4Init E nd False = None)"
  by (induction nds) (auto split: option.splits)

lemma parseChainNode_Inr_iff:
  assumes "chainBase E ns = Inr (n, h, sport)"
  shows "(\<exists>nodes. parseChainNode E ns = Inr nodes) \<longleftrightarrow>
         (Transport n = ''obfs4'' \<longrightarrow>
            (\<forall>nd \<in> set (expandIPs n h (parseIP E (Get n ''ip'') sport)). Obfs4Init E nd False = None))"
proof (cases "Transport n = ''obfs4''")
  case False
  with assms show ?thesis by (simp add: parseChainNode_def Let_def)
next
  case True
  show ?thesis
  proof (cases "obfs4InitAll E (expandIPs n h (parseIP E (Get n ''ip'') sport))")
    case None
    with assms True show ?thesis
      by (simp add: parseChainNode_def Let_def obfs4InitAll_None_iff[symmetric])
  next
    case (Some e)
    with assms True show ?thesis
      by (simp add: parseChainNode_def Let_def obfs4InitAll_None_iff[symmetric])
  qed
qed

lemma groupOfNodes_total:
  assumes "nodes \<noteq> []"
    and "Get (hd nodes) ''peer'' = [] \<or> os_Open E (Get (hd nodes) ''peer'') = None"
  shows "\<exists>g. groupOfNodes E gid nodes = Inr g"
proof -
  from assms(1) obtain x xs where n: "nodes = x # xs" by (cases nodes) auto
  with assms(2) show ?thesis
    by (auto simp: groupOfNodes_def Let_def)
qed

lemma parseChainGroup_total:
  assumes "parseChainNode E ns = Inr nodes"
    and "Get (hd nodes) ''peer'' = [] \<or> os_Open E (Get (hd nodes) ''peer'') = None"
  shows "\<exists>g. parseChainGroup E gid ns = Inr g"
  using assms groupOfNodes_total[of nodes E gid] parseChainNode_nonempty[OF assms(1)]
  by (simp add: parseChainGroup_def)

lemma parseChainLoop_total:
  assumes "\<forall>ns \<in> set nss. \<forall>gid. \<exists>g. parseChainGroup E gid ns = Inr g"
  shows "\<exists>c'. parseChainLoop E gid c nss = Inr c'"
  using assms
proof (induction nss arbitrary: gid c)
  case Nil then show ?case by simp
next
  case (Cons ns rest)
  from Cons.prems have "\<exists>g. parseChainGroup E gid ns = Inr g" by simp
  then obtain g where g: "parseChainGroup E gid ns = Inr g" by blast
  from Cons.prems have "\<forall>ns \<in> set rest. \<forall>gid. \<exists>g. parseChainGroup E gid ns = Inr g" by simp
  from Cons.IH[OF this, of "gid + 1" "c\<lparr>NodeGroups := NodeGroups c @ [g]\<rparr>"] g
  show ?case by simp
qed

lemma parseChain_total:
  assumes "\<forall>ns \<in> set (ChainNodes r). \<exists>nodes. parseChainNode E ns = Inr nodes
             \<and> (Get (hd nodes) ''peer'' = [] \<or> os_Open E (Get (hd nodes) ''peer'') = None)"
  shows "\<exists>c. parseChain E r = Inr c"
proof -
  from assms have "\<forall>ns \<in> set (ChainNodes r). \<forall>gid. \<exists>g. parseChainGroup E gid ns = Inr g"
    by (auto intro: parseChainGroup_total)
  then show ?thesis unfolding parseChain_def by (rule parseChainLoop_total)
qed

lemma chainTransporter_isl_cfg:
  "isl (chainTransporter E n cfg) = isl (chainTransporter E n cfg')"
  by (auto simp: chainTransporter_def Let_def split: sum.splits)

lemma chainBase_isl:
  "isl (chainBase E ns) \<longleftrightarrow>
     (case ParseNode E ns of
        Inl _ \<Rightarrow> True
      | Inr n0 \<Rightarrow>
          (case chainUser E n0 of
             Inl _ \<Rightarrow> True
           | Inr n \<Rightarrow> isl (loadCA E (Get n ''ca''))
                     \<or> isl (chainTransporter E n undefined)
                     \<or> isl (chainSSHConfig E n)))"
proof (cases "ParseNode E ns")
  case (Inl e) then show ?thesis by (simp add: chainBase_def)
next
  case p: (Inr n0)
  show ?thesis
  proof (cases "chainUser E n0")
    case (Inl e) with p show ?thesis by (simp add: chainBase_def)
  next
    case u: (Inr n)
    show ?thesis
    proof (cases "chainTLS E n")
      case (Inl e)
      then have "loadCA E (Get n ''ca'') = Inl e" by (simp add: chainTLS_Inl)
      with p u Inl show ?thesis by (simp add: chainBase_def)
    next
      case t: (Inr q)
      obtain cfg sport where q: "q = (cfg, sport)" by (cases q)
      from t q have l: "\<not> isl (loadCA E (Get n ''ca''))"
        using chainTLS_Inr(1)[of E n cfg sport] by simp
      show ?thesis
      proof (cases "chainTransporter E n cfg")
        case (Inl e)
        then have "isl (chainTransporter E n undefined)"
          using chainTransporter_isl_cfg[of E n cfg undefined] by simp
        with p u t q Inl show ?thesis by (simp add: chainBase_def)
      next
        case tr: (Inr tr')
        then have nt: "\<not> isl (chainTransporter E n undefined)"
          using chainTransporter_isl_cfg[of E n cfg undefined] by simp
        show ?thesis
        proof (cases "chainSSHConfig E n")
          case (Inl e) with p u t q tr show ?thesis by (simp add: chainBase_def Let_def)
        next
          case (Inr sc) with p u t q tr l nt show ?thesis by (simp add: chainBase_def Let_def)
        qed
      qed
    qed
  qed
qed

lemma chainBase_isl_frame:
  "isl (chainBase (E\<lparr>LoadX509KeyPair := f\<rparr>) ns) = isl (chainBase E ns)"
proof -
  have a: "\<And>n0. authUser (E\<lparr>LoadX509KeyPair := f\<rparr>) n0 = authUser E n0"
    by (simp add: authUser_def cong: if_cong)
  have se: "\<And>n0. secretsUser (E\<lparr>LoadX509KeyPair := f\<rparr>) n0 = secretsUser E n0"
    by (simp add: secretsUser_def cong: if_cong)
  have u: "\<And>n0. chainUser (E\<lparr>LoadX509KeyPair := f\<rparr>) n0 = chainUser E n0"
    by (simp add: chainUser_def a se cong: sum.case_cong)
  have k: "\<And>n. kcpConfig (E\<lparr>LoadX509KeyPair := f\<rparr>) n = kcpConfig E n"
    by (simp add: kcpConfig_def GetBool_def Let_def cong: sum.case_cong option.case_cong)
  have t: "\<And>n cfg. chainTransporter (E\<lparr>LoadX509KeyPair := f\<rparr>) n cfg = chainTransporter E n cfg"
    by (simp add: chainTransporter_def chainWSOptions_def k GetBool_def GetInt_def Let_def)
  have s: "\<And>n. chainSSHConfig (E\<lparr>LoadX509KeyPair := f\<rparr>) n = chainSSHConfig E n"
    by (simp add: chainSSHConfig_def Let_def)
  show ?thesis
    unfolding chainBase_isl by (simp add: u t s cong: sum.case_cong)
qed

lemma parseChainNode_isl_base:
  assumes "ParseNode E ns = Inr n0" "Transport n0 \<noteq> ''obfs4''"
  shows "isl (parseChainNode E ns) = isl (chainBase E ns)"
proof (cases "chainBase E ns")
  case (Inl e) then show ?thesis by (simp add: parseChainNode_def)
next
  case (Inr q)
  obtain b h sport where q: "q = (b, h, sport)" by (cases q)
  from Inr q obtain n1 where "chainUser E n0 = Inr n1" "Transport b = Transport n1"
    using assms(1) by (auto elim!: chainBaseE)
  with assms(2) chainUser_Transport[of E n0 n1] have "Transport b \<noteq> ''obfs4''" by simp
  with Inr q show ?thesis by (simp add: parseChainNode_def Let_def)
qed

lemma parseChainNode_isl_frame:
  assumes "ParseNode E ns = Inr n0" "Transport n0 \<noteq> ''obfs4''"
  shows "isl (parseChainNode (E\<lparr>LoadX509KeyPair := f\<rparr>) ns) = isl (parseChainNode E ns)"
proof -
  from assms(1) have "ParseNode (E\<lparr>LoadX509KeyPair := f\<rparr>) ns = Inr n0" by simp
  from parseChainNode_isl_base[OF this assms(2)] parseChainNode_isl_base[OF assms]
  show ?thesis by (simp add: chainBase_isl_frame)
qed

lemma parseChain_groups:
  assumes "parseChain E r = Inr c"
  shows "length (NodeGroups c) = length (ChainNodes r)
       \<and> (\<forall>k < length (ChainNodes r).
            \<exists>nodes G. parseChainNode E (ChainNodes r ! k) = Inr nodes
              \<and> GroupID G = int k + 1
              \<and> GroupNodes G = assignIDs 1 nodes
              \<and> NodeGroups c ! k =
                  (if Get (hd nodes) ''peer'' = [] then G
                   else (PeerReload E (Get (hd nodes) ''peer'') G (GroupNodes G))
                          \<lparr>PeerFile := Some (Get (hd nodes) ''peer'')\<rparr>))"
proof -
  from assms obtain gs where gs: "NodeGroups c = gs" "length gs = length (ChainNodes r)"
    "\<forall>k < length (ChainNodes r). parseChainGroup E (1 + int k) (ChainNodes r ! k) = Inr (gs ! k)"
    unfolding parseChain_def by (auto dest!: parseChainLoop_Inr)
  show ?thesis
  proof (intro conjI allI impI)
    show "length (NodeGroups c) = length (ChainNodes r)" using gs by simp
  next
    fix k assume k: "k < length (ChainNodes r)"
    with gs have pg: "parseChainGroup E (1 + int k) (ChainNodes r ! k) = Inr (NodeGroups c ! k)"
      by simp
    from parseChainGroup_Inr[OF pg]
    show "\<exists>nodes G. parseChainNode E (ChainNodes r ! k) = Inr nodes
              \<and> GroupID G = int k + 1
              \<and> GroupNodes G = assignIDs 1 nodes
              \<and> NodeGroups c ! k =
                  (if Get (hd nodes) ''peer'' = [] then G
                   else (PeerReload E (Get (hd nodes) ''peer'') G (GroupNodes G))
                          \<lparr>PeerFile := Some (Get (hd nodes) ''peer'')\<rparr>)"
      by (simp add: add.commute)
  qed
qed

lemma assignIDs_ids1: "map ID (assignIDs 1 nodes) = [1 .. int (length nodes)]"
  using assignIDs_ids[of 1 nodes] by simp

lemma assignIDs_nth1:
  "i < length nodes \<Longrightarrow> assignIDs 1 nodes ! i = (nodes ! i)\<lparr>ID := int i + 1\<rparr>"
  using assignIDs_nth[of i nodes 1] by (simp add: add.commute)








section \<open>The claims\<close>

text \<open>
  Claim C1, as amended. For a serve-node spec whose transport key is \<open>tcp\<close> and whose
  \<open>sourceInterface\<close> option is not empty: if the interface does not exist, its addresses
  cannot be read, or none of its addresses (there may be none) has an IPv4 form, GenRouters
  returns an error and no router; and when GenRouters succeeds, the interface exists, the
  first of its addresses with an IPv4 form gives the IP, the spec address resolves as a TCP
  address, and the listener of that spec is the TCP listener on the address made of that
  IP with the port and zone of the resolved spec address. (The claim as stated speaks of
  every serve-node spec; the override is written in the \<open>tcp\<close> case of the switch only,
  and the counterexample below runs a \<open>tls\<close> spec naming an interface that does not
  exist.)
\<close>

theorem source_interface_tcp:
  "(ns \<in> set (ServeNodes r) \<and> ParseNode E ns = Inr n0 \<and> Transport n0 = ''tcp''
      \<and> Get n0 ''sourceInterface'' \<noteq> []
      \<and> ((\<exists>e. InterfaceByName E (Get n0 ''sourceInterface'') = Inl e)
         \<or> (\<exists>ief. InterfaceByName E (Get n0 ''sourceInterface'') = Inr ief
               \<and> ((\<exists>e. InterfaceAddrs E ief = Inl e)
                  \<or> (\<exists>addrs. InterfaceAddrs E ief = Inr addrs
                        \<and> (\<forall>a \<in> set addrs. To4 E a = None)))))
     \<longrightarrow> (\<exists>f. GenRouters E r = Inl f))
 \<and> (GenRouters E r = Inr (rts, c) \<and> k < length (ServeNodes r)
      \<and> ParseNode E (ServeNodes r ! k) = Inr m0 \<and> Transport m0 = ''tcp''
      \<and> Get m0 ''sourceInterface'' \<noteq> []
     \<longrightarrow> (\<exists>ief pre a post ip laddr.
            InterfaceByName E (Get m0 ''sourceInterface'') = Inr ief
          \<and> InterfaceAddrs E ief = Inr (pre @ a # post)
          \<and> (\<forall>x \<in> set pre. To4 E x = None) \<and> To4 E a = Some ip
          \<and> ResolveTCPAddr E ''tcp'' (Addr m0) = Inr laddr
          \<and> RouterListener (rts ! k) = TCPListener (TCPAddr_String E
               \<lparr>TCP_IP = ip, TCP_Port = TCP_Port laddr, TCP_Zone = TCP_Zone laddr\<rparr>)))"
proof (intro conjI impI)
  assume a: "ns \<in> set (ServeNodes r) \<and> ParseNode E ns = Inr n0 \<and> Transport n0 = ''tcp''
      \<and> Get n0 ''sourceInterface'' \<noteq> []
      \<and> ((\<exists>e. InterfaceByName E (Get n0 ''sourceInterface'') = Inl e)
         \<or> (\<exists>ief. InterfaceByName E (Get n0 ''sourceInterface'') = Inr ief
               \<and> ((\<exists>e. InterfaceAddrs E ief = Inl e)
                  \<or> (\<exists>addrs. InterfaceAddrs E ief = Inr addrs
                        \<and> (\<forall>a \<in> set addrs. To4 E a = None)))))"
  then have "\<And>c. \<exists>e. serveNode E c ns = Inl e"
    by (intro serveNode_tcp_fails[of E ns n0]) blast+
  with a show "\<exists>f. GenRouters E r = Inl f" by (intro GenRouters_Inl[of ns]) blast+
next
  assume a: "GenRouters E r = Inr (rts, c) \<and> k < length (ServeNodes r)
      \<and> ParseNode E (ServeNodes r ! k) = Inr m0 \<and> Transport m0 = ''tcp''
      \<and> Get m0 ''sourceInterface'' \<noteq> []"
  then obtain ck ck' where s: "serveNode E ck (ServeNodes r ! k) = Inr (rts ! k, ck')"
    by (auto dest!: GenRouters_Inr)
  from serveNode_tcp_listener[OF s, of m0] a obtain ief addrs ip laddr where
    h: "InterfaceByName E (Get m0 ''sourceInterface'') = Inr ief"
       "InterfaceAddrs E ief = Inr addrs"
       "ipv4Loop E None addrs = Some ip"
       "ResolveTCPAddr E ''tcp'' (Addr m0) = Inr laddr"
       "RouterListener (rts ! k) = TCPListener (TCPAddr_String E
              \<lparr>TCP_IP = ip, TCP_Port = TCP_Port laddr, TCP_Zone = TCP_Zone laddr\<rparr>)"
    by blast
  from h(3) obtain pre x post where
    p: "addrs = pre @ x # post" "\<forall>y \<in> set pre. To4 E y = None" "To4 E x = Some ip"
    by (auto simp: ipv4Loop_Some)
  with h show "\<exists>ief pre a post ip laddr.
            InterfaceByName E (Get m0 ''sourceInterface'') = Inr ief
          \<and> InterfaceAddrs E ief = Inr (pre @ a # post)
          \<and> (\<forall>x \<in> set pre. To4 E x = None) \<and> To4 E a = Some ip
          \<and> ResolveTCPAddr E ''tcp'' (Addr m0) = Inr laddr
          \<and> RouterListener (rts ! k) = TCPListener (TCPAddr_String E
               \<lparr>TCP_IP = ip, TCP_Port = TCP_Port laddr, TCP_Zone = TCP_Zone laddr\<rparr>)"
    by blast
qed

theorem source_interface_tcp_counterexample:
  "Get (projr (ParseNode sample_env ''socks5+tls://:8443?sourceInterface=eth7''))
       ''sourceInterface'' = ''eth7''
 \<and> InterfaceByName sample_env ''eth7'' = Inl (Error ''no such network interface'')
 \<and> \<not> isl (GenRouters sample_env (sample_route [''socks5+tls://:8443?sourceInterface=eth7''] []))
 \<and> map RouterListener (fst (projr (GenRouters sample_env
        (sample_route [''socks5+tls://:8443?sourceInterface=eth7''] []))))
     = [TLSListener '':8443'' None]"
  by code_simp

theorem source_interface_tcp_witness:
  "isl (GenRouters sample_env (sample_route
          [''socks5://:1080'', ''tcp://:1080?sourceInterface=eth7''] []))
 \<and> isl (GenRouters sample_env (sample_route [''tcp://:1080?sourceInterface=dummy0''] []))
 \<and> isl (GenRouters sample_env (sample_route [''tcp://:1080?sourceInterface=lo6''] []))
 \<and> (\<exists>rts c. GenRouters sample_env (sample_route [''tcp://:1080?sourceInterface=tailscale0''] [])
               = Inr (rts, c)
        \<and> RouterListener (rts ! 0) = TCPListener ''100.64.0.1:1080'')"
proof -
  let ?eth7 = "''tcp://:1080?sourceInterface=eth7''"
  let ?dummy = "''tcp://:1080?sourceInterface=dummy0''"
  let ?lo6 = "''tcp://:1080?sourceInterface=lo6''"
  let ?ts = "''tcp://:1080?sourceInterface=tailscale0''"
  let ?v6 = "IP [0, 0, 0, 0, 0, 0, 0, 0, 0, 0, 0, 0, 0, 0, 0, 1]"
  let ?ts6 = "IP [253, 122, 17, 92, 161, 224, 171, 18, 72, 67, 205, 150, 98, 64, 0, 1]"
  let ?ts4 = "IP [100, 64, 0, 1]"
  have p: "\<And>s. \<not> isl (ParseNode sample_env s) \<Longrightarrow> ParseNode sample_env s = Inr (projr (ParseNode sample_env s))"
    by (rule Inr_projr)
  have e1: "ParseNode sample_env ?eth7 = Inr (projr (ParseNode sample_env ?eth7))" by (rule p) code_simp
  have e2: "Transport (projr (ParseNode sample_env ?eth7)) = ''tcp''"
    "Get (projr (ParseNode sample_env ?eth7)) ''sourceInterface'' = ''eth7''"
    "InterfaceByName sample_env ''eth7'' = Inl (Error ''no such network interface'')"
    by code_simp+
  have d1: "ParseNode sample_env ?dummy = Inr (projr (ParseNode sample_env ?dummy))" by (rule p) code_simp
  have d2: "Transport (projr (ParseNode sample_env ?dummy)) = ''tcp''"
    "Get (projr (ParseNode sample_env ?dummy)) ''sourceInterface'' = ''dummy0''"
    "InterfaceByName sample_env ''dummy0'' = Inr \<lparr>IfName = ''dummy0'', IfIndex = 2\<rparr>"
    "InterfaceAddrs sample_env \<lparr>IfName = ''dummy0'', IfIndex = 2\<rparr> = Inr []"
    by code_simp+
  have l1: "ParseNode sample_env ?lo6 = Inr (projr (ParseNode sample_env ?lo6))" by (rule p) code_simp
  have l2: "Transport (projr (ParseNode sample_env ?lo6)) = ''tcp''"
    "Get (projr (ParseNode sample_env ?lo6)) ''sourceInterface'' = ''lo6''"
    "InterfaceByName sample_env ''lo6'' = Inr \<lparr>IfName = ''lo6'', IfIndex = 1\<rparr>"
    "InterfaceAddrs sample_env \<lparr>IfName = ''lo6'', IfIndex = 1\<rparr> = Inr [?v6]"
    "To4 sample_env ?v6 = None"
    by code_simp+
  have t1: "ParseNode sample_env ?ts = Inr (projr (ParseNode sample_env ?ts))" by (rule p) code_simp
  have t2: "Transport (projr (ParseNode sample_env ?ts)) = ''tcp''"
    "Get (projr (ParseNode sample_env ?ts)) ''sourceInterface'' = ''tailscale0''"
    "Addr (projr (ParseNode sample_env ?ts)) = '':1080''"
    "InterfaceByName sample_env ''tailscale0'' = Inr \<lparr>IfName = ''tailscale0'', IfIndex = 3\<rparr>"
    "InterfaceAddrs sample_env \<lparr>IfName = ''tailscale0'', IfIndex = 3\<rparr> = Inr [?ts6, ?ts4]"
    "To4 sample_env ?ts6 = None" "To4 sample_env ?ts4 = Some ?ts4"
    "ResolveTCPAddr sample_env ''tcp'' '':1080'' = Inr \<lparr>TCP_IP = IP [], TCP_Port = 1080, TCP_Zone = []\<rparr>"
    "TCPAddr_String sample_env \<lparr>TCP_IP = ?ts4, TCP_Port = 1080, TCP_Zone = []\<rparr> = ''100.64.0.1:1080''"
    by code_simp+
  have "\<exists>f. GenRouters sample_env (sample_route [''socks5://:1080'', ?eth7] []) = Inl f"
    using source_interface_tcp[of ?eth7 "sample_route [''socks5://:1080'', ?eth7] []" sample_env
        "projr (ParseNode sample_env ?eth7)"] e1 e2
    by (simp add: sample_route_def)
  then have w1: "isl (GenRouters sample_env (sample_route [''socks5://:1080'', ?eth7] []))" by auto
  have "\<exists>f. GenRouters sample_env (sample_route [?dummy] []) = Inl f"
    using source_interface_tcp[of ?dummy "sample_route [?dummy] []" sample_env
        "projr (ParseNode sample_env ?dummy)"] d1 d2
    by (simp add: sample_route_def)
  then have w2: "isl (GenRouters sample_env (sample_route [?dummy] []))" by auto
  have "\<exists>f. GenRouters sample_env (sample_route [?lo6] []) = Inl f"
    using source_interface_tcp[of ?lo6 "sample_route [?lo6] []" sample_env
        "projr (ParseNode sample_env ?lo6)"] l1 l2
    by (simp add: sample_route_def)
  then have w3: "isl (GenRouters sample_env (sample_route [?lo6] []))" by auto
  have "\<not> isl (GenRouters sample_env (sample_route [?ts] []))" by code_simp
  then obtain rts c where g: "GenRouters sample_env (sample_route [?ts] []) = Inr (rts, c)"
    by (cases "GenRouters sample_env (sample_route [?ts] [])") auto
  let ?m = "projr (ParseNode sample_env ?ts)"
  have S: "GenRouters sample_env (sample_route [?ts] []) = Inr (rts, c)
      \<and> 0 < length (ServeNodes (sample_route [?ts] []))
      \<and> ParseNode sample_env (ServeNodes (sample_route [?ts] []) ! 0) = Inr ?m
      \<and> Transport ?m = ''tcp'' \<and> Get ?m ''sourceInterface'' \<noteq> []"
    using g t1 t2(1,2) by (simp add: sample_route_def)
  have "\<exists>ief pre a post ip laddr.
            InterfaceByName sample_env (Get ?m ''sourceInterface'') = Inr ief
          \<and> InterfaceAddrs sample_env ief = Inr (pre @ a # post)
          \<and> (\<forall>x \<in> set pre. To4 sample_env x = None) \<and> To4 sample_env a = Some ip
          \<and> ResolveTCPAddr sample_env ''tcp'' (Addr ?m) = Inr laddr
          \<and> RouterListener (rts ! 0) = TCPListener (TCPAddr_String sample_env
               \<lparr>TCP_IP = ip, TCP_Port = TCP_Port laddr, TCP_Zone = TCP_Zone laddr\<rparr>)"
    by (rule source_interface_tcp[of ?ts "sample_route [?ts] []" sample_env ?m rts c 0 ?m,
          THEN conjunct2, THEN mp, OF S])
  then obtain ief pre a post ip laddr where
    h0: "InterfaceByName sample_env (Get ?m ''sourceInterface'') = Inr ief"
       "InterfaceAddrs sample_env ief = Inr (pre @ a # post)"
       "\<forall>x \<in> set pre. To4 sample_env x = None" "To4 sample_env a = Some ip"
       "ResolveTCPAddr sample_env ''tcp'' (Addr ?m) = Inr laddr"
       "RouterListener (rts ! 0) = TCPListener (TCPAddr_String sample_env
               \<lparr>TCP_IP = ip, TCP_Port = TCP_Port laddr, TCP_Zone = TCP_Zone laddr\<rparr>)"
    by blast
  from h0 have
    h: "InterfaceByName sample_env ''tailscale0'' = Inr ief"
       "InterfaceAddrs sample_env ief = Inr (pre @ a # post)"
       "\<forall>x \<in> set pre. To4 sample_env x = None" "To4 sample_env a = Some ip"
       "ResolveTCPAddr sample_env ''tcp'' '':1080'' = Inr laddr"
       "RouterListener (rts ! 0) = TCPListener (TCPAddr_String sample_env
               \<lparr>TCP_IP = ip, TCP_Port = TCP_Port laddr, TCP_Zone = TCP_Zone laddr\<rparr>)"
    by (simp_all only: t2(2,3))
  from h(1) t2(4) have ief: "ief = \<lparr>IfName = ''tailscale0'', IfIndex = 3\<rparr>" by simp
  with h(2) t2(5) have ad: "pre @ a # post = [?ts6, ?ts4]" by simp
  have ip: "ip = ?ts4"
  proof (cases pre)
    case Nil
    with ad have "a = ?ts6" by simp
    with h(4) t2(6) show ?thesis by simp
  next
    case (Cons x xs)
    with ad have x: "x = ?ts6" "xs @ a # post = [?ts4]" by simp_all
    then have "xs = []" by (cases xs) auto
    with x have "a = ?ts4" by simp
    with h(4) t2(7) show ?thesis by simp
  qed
  from h(5) t2(8) have "laddr = \<lparr>TCP_IP = IP [], TCP_Port = 1080, TCP_Zone = []\<rparr>" by simp
  with h(6) ip t2(9) have "RouterListener (rts ! 0) = TCPListener ''100.64.0.1:1080''" by simp
  with g w1 w2 w3 show ?thesis by blast
qed

text \<open>
  Claim C2, as amended. parseChainNode returns an error and no node whenever
  gost.ParseNode rejects the spec; the spec embeds no credential, the \<open>auth\<close> option is
  not empty and its base64 decoding fails; the spec embeds no credential, the \<open>auth\<close>
  option is empty and parseUsers fails on the \<open>secrets\<close> option; loadCA fails on the
  \<open>ca\<close> option; or the transport is obfs4 and the negotiation fails for any of the nodes
  built from the spec. (The claim as stated also lists an unreadable client certificate or
  key file and a malformed IP expansion: the first is skipped by line 163, the second has
  no error result at line 303; and the \<open>auth\<close> and \<open>secrets\<close> options are not read at
  all when the spec embeds a credential. The counterexample below runs two such specs.)
\<close>

theorem parseChainNode_aborts:
  "(ParseNode E ns = Inl e \<longrightarrow> parseChainNode E ns = Inl e)
 \<and> (ParseNode E ns = Inr n0 \<and> User n0 = None \<and> Get n0 ''auth'' \<noteq> []
      \<and> DecodeString E (Get n0 ''auth'') = Inl e \<longrightarrow> parseChainNode E ns = Inl e)
 \<and> (ParseNode E ns = Inr n0 \<and> User n0 = None \<and> Get n0 ''auth'' = []
      \<and> parseUsers E (Get n0 ''secrets'') = (us, Some e) \<longrightarrow> parseChainNode E ns = Inl e)
 \<and> (ParseNode E ns = Inr n0 \<and> loadCA E (Get n0 ''ca'') = Inl e
      \<longrightarrow> (\<exists>e'. parseChainNode E ns = Inl e'))
 \<and> (chainBase E ns = Inr (n, h, sport) \<and> Transport n = ''obfs4''
      \<and> nd \<in> set (expandIPs n h (parseIP E (Get n ''ip'') sport))
      \<and> Obfs4Init E nd False = Some e \<longrightarrow> (\<exists>e'. parseChainNode E ns = Inl e'))"
proof (intro conjI impI)
  assume "ParseNode E ns = Inl e"
  then show "parseChainNode E ns = Inl e"
    by (simp add: chainBase_Inl_ParseNode parseChainNode_Inl_base)
next
  assume a: "ParseNode E ns = Inr n0 \<and> User n0 = None \<and> Get n0 ''auth'' \<noteq> []
      \<and> DecodeString E (Get n0 ''auth'') = Inl e"
  then have "chainUser E n0 = Inl e" by (simp add: chainUser_def authUser_def)
  with a show "parseChainNode E ns = Inl e"
    by (simp add: chainBase_Inl_chainUser parseChainNode_Inl_base)
next
  assume a: "ParseNode E ns = Inr n0 \<and> User n0 = None \<and> Get n0 ''auth'' = []
      \<and> parseUsers E (Get n0 ''secrets'') = (us, Some e)"
  then have "chainUser E n0 = Inl e" by (simp add: chainUser_def authUser_def secretsUser_def)
  with a show "parseChainNode E ns = Inl e"
    by (simp add: chainBase_Inl_chainUser parseChainNode_Inl_base)
next
  assume "ParseNode E ns = Inr n0 \<and> loadCA E (Get n0 ''ca'') = Inl e"
  then show "\<exists>e'. parseChainNode E ns = Inl e'"
    by (auto dest!: chainBase_Inl_loadCA dest: parseChainNode_Inl_base)
next
  assume a: "chainBase E ns = Inr (n, h, sport) \<and> Transport n = ''obfs4''
      \<and> nd \<in> set (expandIPs n h (parseIP E (Get n ''ip'') sport))
      \<and> Obfs4Init E nd False = Some e"
  then have "\<exists>e'. obfs4InitAll E (expandIPs n h (parseIP E (Get n ''ip'') sport)) = Some e'"
    by (subst obfs4InitAll_Some_iff) blast
  with a show "\<exists>e'. parseChainNode E ns = Inl e'"
    by (auto simp: parseChainNode_def Let_def)
qed

theorem parseChainNode_aborts_counterexample:
  "Get (projr (ParseNode sample_env ''http2://10.0.0.1:443?cert=/missing.pem&key=/missing.key''))
       ''cert'' = ''/missing.pem''
 \<and> Get (projr (ParseNode sample_env ''http2://10.0.0.1:443?cert=/missing.pem&key=/missing.key''))
       ''key'' = ''/missing.key''
 \<and> LoadX509KeyPair sample_env ''/missing.pem'' ''/missing.key'' = Inl (Error ''no such file'')
 \<and> \<not> isl (parseChainNode sample_env ''http2://10.0.0.1:443?cert=/missing.pem&key=/missing.key'')
 \<and> length (projr (parseChainNode sample_env
       ''http2://10.0.0.1:443?cert=/missing.pem&key=/missing.key'')) = 1
 \<and> Get (projr (ParseNode sample_env ''socks5+tls://u:p@10.0.0.1:1080?auth=!!&secrets=/missing''))
       ''secrets'' = ''/missing''
 \<and> parseUsers sample_env ''/missing'' = ([], Some (Error ''no such file''))
 \<and> \<not> isl (parseChainNode sample_env ''socks5+tls://u:p@10.0.0.1:1080?auth=!!&secrets=/missing'')"
  by code_simp

theorem parseChainNode_aborts_witness:
  "ParseNode sample_env ''not a node'' = Inl (Error ''invalid node'')
 \<and> parseChainNode sample_env ''not a node'' = Inl (Error ''invalid node'')
 \<and> parseChainNode sample_env ''socks5://10.0.0.1:1080?auth=!!'' = Inl (Error ''illegal base64 data'')
 \<and> parseChainNode sample_env ''socks5://10.0.0.1:1080?secrets=/missing'' = Inl (Error ''no such file'')
 \<and> isl (parseChainNode sample_env ''http2://10.0.0.1:443?ca=/missing.pem'')
 \<and> isl (parseChainNode sample_env ''obfs4://10.0.0.1:443?ip=1.2.3.4,1.2.3.5'')"
proof -
  let ?a = "''socks5://10.0.0.1:1080?auth=!!''"
  let ?s = "''socks5://10.0.0.1:1080?secrets=/missing''"
  let ?c = "''http2://10.0.0.1:443?ca=/missing.pem''"
  let ?o = "''obfs4://10.0.0.1:443?ip=1.2.3.4,1.2.3.5''"
  let ?b = "projr (chainBase sample_env ?o)"
  have p: "ParseNode sample_env ''not a node'' = Inl (Error ''invalid node'')" by code_simp
  have ha: "ParseNode sample_env ?a = Inr (projr (ParseNode sample_env ?a))
      \<and> User (projr (ParseNode sample_env ?a)) = None
      \<and> Get (projr (ParseNode sample_env ?a)) ''auth'' \<noteq> []
      \<and> DecodeString sample_env (Get (projr (ParseNode sample_env ?a)) ''auth'')
          = Inl (Error ''illegal base64 data'')" by code_simp
  have hs: "ParseNode sample_env ?s = Inr (projr (ParseNode sample_env ?s))
      \<and> User (projr (ParseNode sample_env ?s)) = None
      \<and> Get (projr (ParseNode sample_env ?s)) ''auth'' = []
      \<and> parseUsers sample_env (Get (projr (ParseNode sample_env ?s)) ''secrets'')
          = ([], Some (Error ''no such file''))" by code_simp
  have hc: "ParseNode sample_env ?c = Inr (projr (ParseNode sample_env ?c))
      \<and> loadCA sample_env (Get (projr (ParseNode sample_env ?c)) ''ca'') = Inl (Error ''no such file'')"
    by code_simp
  have "\<not> isl (chainBase sample_env ?o)" by code_simp
  then have "chainBase sample_env ?o = Inr (fst ?b, fst (snd ?b), snd (snd ?b))"
    by (simp add: Inr_projr)
  moreover have "Transport (fst ?b) = ''obfs4''" by code_simp
  moreover have "(expandIPs (fst ?b) (fst (snd ?b))
        (parseIP sample_env (Get (fst ?b) ''ip'') (snd (snd ?b)))) ! 1
      \<in> set (expandIPs (fst ?b) (fst (snd ?b))
        (parseIP sample_env (Get (fst ?b) ''ip'') (snd (snd ?b))))"
    by (rule nth_mem) code_simp
  moreover have "Obfs4Init sample_env ((expandIPs (fst ?b) (fst (snd ?b))
        (parseIP sample_env (Get (fst ?b) ''ip'') (snd (snd ?b)))) ! 1) False
      = Some (Error ''obfs4: missing cert'')" by code_simp
  ultimately have ho: "chainBase sample_env ?o = Inr (fst ?b, fst (snd ?b), snd (snd ?b))
      \<and> Transport (fst ?b) = ''obfs4''
      \<and> (expandIPs (fst ?b) (fst (snd ?b))
        (parseIP sample_env (Get (fst ?b) ''ip'') (snd (snd ?b)))) ! 1
      \<in> set (expandIPs (fst ?b) (fst (snd ?b))
        (parseIP sample_env (Get (fst ?b) ''ip'') (snd (snd ?b))))
      \<and> Obfs4Init sample_env ((expandIPs (fst ?b) (fst (snd ?b))
        (parseIP sample_env (Get (fst ?b) ''ip'') (snd (snd ?b)))) ! 1) False
      = Some (Error ''obfs4: missing cert'')" by blast
  have t1: "parseChainNode sample_env ''not a node'' = Inl (Error ''invalid node'')"
    using parseChainNode_aborts[of sample_env "''not a node''" "Error ''invalid node''"] p by blast
  have t2: "parseChainNode sample_env ?a = Inl (Error ''illegal base64 data'')"
    using parseChainNode_aborts[of sample_env ?a "Error ''illegal base64 data''"
        "projr (ParseNode sample_env ?a)"] ha by blast
  have t3: "parseChainNode sample_env ?s = Inl (Error ''no such file'')"
    using parseChainNode_aborts[of sample_env ?s "Error ''no such file''"
        "projr (ParseNode sample_env ?s)" "[]"] hs by blast
  have "\<exists>e'. parseChainNode sample_env ?c = Inl e'"
    using parseChainNode_aborts[of sample_env ?c "Error ''no such file''"
        "projr (ParseNode sample_env ?c)"] hc by blast
  then have t4: "isl (parseChainNode sample_env ?c)" by auto
  have "\<exists>e'. parseChainNode sample_env ?o = Inl e'"
    using parseChainNode_aborts[of sample_env ?o "Error ''obfs4: missing cert''" _ _
        "fst ?b" "fst (snd ?b)" "snd (snd ?b)"
        "(expandIPs (fst ?b) (fst (snd ?b))
           (parseIP sample_env (Get (fst ?b) ''ip'') (snd (snd ?b)))) ! 1"] ho by blast
  then have t5: "isl (parseChainNode sample_env ?o)" by auto
  from p t1 t2 t3 t4 t5 show ?thesis by blast
qed

text \<open>
  Claim C3. Loading the client certificate/key pair is best-effort. The only error of
  the TLS step of parseChainNode is the one of loadCA; when tls.LoadX509KeyPair fails the
  configuration has no certificate and construction goes on, and when it succeeds the
  configuration holds exactly that certificate. The configuration is the one handed to
  the handshake options of the node. Whether parseChainNode returns an error does not
  depend on the outcome of tls.LoadX509KeyPair (for the obfs4 transport the negotiation,
  which is given the finished node, is outside route.go and is left out of this part).
\<close>

theorem client_certificate_best_effort:
  "(chainTLS E n = Inl e \<longrightarrow> loadCA E (Get n ''ca'') = Inl e)
 \<and> (chainTLS E n = Inr (cfg, sport) \<longrightarrow>
       Certificates cfg =
         (case LoadX509KeyPair E (Get n ''cert'') (Get n ''key'') of
            Inl _ \<Rightarrow> [] | Inr cert \<Rightarrow> [cert]))
 \<and> (chainBase E ns = Inr (b, h, sport') \<longrightarrow>
       (\<exists>cfg'. h ! 3 = TLSConfigHandshakeOption cfg'
           \<and> Certificates cfg' =
               (case LoadX509KeyPair E (Get b ''cert'') (Get b ''key'') of
                  Inl _ \<Rightarrow> [] | Inr cert \<Rightarrow> [cert])))
 \<and> (ParseNode E ns = Inr n0 \<and> Transport n0 \<noteq> ''obfs4'' \<longrightarrow>
       isl (parseChainNode (E\<lparr>LoadX509KeyPair := f\<rparr>) ns) = isl (parseChainNode E ns))"
proof (intro conjI impI)
  assume "ParseNode E ns = Inr n0 \<and> Transport n0 \<noteq> ''obfs4''"
  then show "isl (parseChainNode (E\<lparr>LoadX509KeyPair := f\<rparr>) ns) = isl (parseChainNode E ns)"
    by (intro parseChainNode_isl_frame[of E ns n0]) blast+
next
  assume "chainTLS E n = Inl e" then show "loadCA E (Get n ''ca'') = Inl e"
    by (simp add: chainTLS_Inl)
next
  assume "chainTLS E n = Inr (cfg, sport)"
  then show "Certificates cfg =
         (case LoadX509KeyPair E (Get n ''cert'') (Get n ''key'') of
            Inl _ \<Rightarrow> [] | Inr cert \<Rightarrow> [cert])"
    by (rule chainTLS_Inr(6))
next
  assume "chainBase E ns = Inr (b, h, sport')"
  from chainBase_TLS[OF this] obtain n1 cfg' where
    t: "chainTLS E n1 = Inr (cfg', sport')" and v: "Values n1 = Values b"
    and h: "h ! 3 = TLSConfigHandshakeOption cfg'" by blast
  from v have "Get n1 = Get b" by (simp add: Get_def fun_eq_iff)
  with chainTLS_Inr(6)[OF t] h
  show "\<exists>cfg'. h ! 3 = TLSConfigHandshakeOption cfg'
           \<and> Certificates cfg' =
               (case LoadX509KeyPair E (Get b ''cert'') (Get b ''key'') of
                  Inl _ \<Rightarrow> [] | Inr cert \<Rightarrow> [cert])"
    by auto
qed

theorem client_certificate_best_effort_witness:
  "isl (LoadX509KeyPair sample_env ''/missing.pem'' ''/missing.key'')
 \<and> Certificates (fst (projr (chainTLS sample_env
       (projr (sample_ParseNode ''http2://10.0.0.1:443?cert=/missing.pem&key=/missing.key''))))) = []
 \<and> Certificates (fst (projr (chainTLS sample_env
       (projr (sample_ParseNode ''http2://10.0.0.1:443?cert=/etc/gost/cert.pem&key=/etc/gost/key.pem'')))))
    = [KeyPair ''/etc/gost/cert.pem'' ''/etc/gost/key.pem'']
 \<and> chainTLS sample_env (projr (sample_ParseNode ''http2://10.0.0.1:443?ca=/missing.pem''))
    = Inl (Error ''no such file'')
 \<and> loadCA sample_env ''/missing.pem'' = Inl (Error ''no such file'')
 \<and> (\<exists>b h sport cfg.
       chainBase sample_env ''http2://10.0.0.1:443?cert=/missing.pem&key=/missing.key'' = Inr (b, h, sport)
     \<and> h ! 3 = TLSConfigHandshakeOption cfg \<and> Certificates cfg = [])
 \<and> \<not> isl (parseChainNode sample_env ''http2://10.0.0.1:443?cert=/missing.pem&key=/missing.key'')
 \<and> \<not> isl (parseChainNode (sample_env\<lparr>LoadX509KeyPair := (\<lambda>c k. Inr (KeyPair c k))\<rparr>)
             ''http2://10.0.0.1:443?cert=/missing.pem&key=/missing.key'')"
proof -
  let ?s = "''http2://10.0.0.1:443?cert=/missing.pem&key=/missing.key''"
  let ?n = "projr (sample_ParseNode ?s)"
  let ?m = "projr (sample_ParseNode ''http2://10.0.0.1:443?cert=/etc/gost/cert.pem&key=/etc/gost/key.pem'')"
  let ?k = "projr (sample_ParseNode ''http2://10.0.0.1:443?ca=/missing.pem'')"
  have f: "isl (LoadX509KeyPair sample_env ''/missing.pem'' ''/missing.key'')" by code_simp
  have gn: "Get ?n ''cert'' = ''/missing.pem''" "Get ?n ''key'' = ''/missing.key''" by code_simp+
  have gm: "LoadX509KeyPair sample_env (Get ?m ''cert'') (Get ?m ''key'')
              = Inr (KeyPair ''/etc/gost/cert.pem'' ''/etc/gost/key.pem'')" by code_simp
  have "\<not> isl (chainTLS sample_env ?n)" by code_simp
  then have tn: "chainTLS sample_env ?n
      = Inr (fst (projr (chainTLS sample_env ?n)), snd (projr (chainTLS sample_env ?n)))"
    by (simp add: Inr_projr)
  have "\<not> isl (chainTLS sample_env ?m)" by code_simp
  then have tm: "chainTLS sample_env ?m
      = Inr (fst (projr (chainTLS sample_env ?m)), snd (projr (chainTLS sample_env ?m)))"
    by (simp add: Inr_projr)
  have tk: "chainTLS sample_env ?k = Inl (Error ''no such file'')" by code_simp
  have "\<not> isl (chainBase sample_env ?s)" by code_simp
  then obtain b h sport where b: "chainBase sample_env ?s = Inr (b, h, sport)"
    by (cases "chainBase sample_env ?s") auto
  have gb: "Get (fst (projr (chainBase sample_env ?s))) ''cert'' = ''/missing.pem''"
       "Get (fst (projr (chainBase sample_env ?s))) ''key'' = ''/missing.key''" by code_simp+
  with b have gb': "Get b ''cert'' = ''/missing.pem''" "Get b ''key'' = ''/missing.key''" by simp_all
  have c1: "Certificates (fst (projr (chainTLS sample_env ?n))) = []"
    using client_certificate_best_effort[of sample_env ?n _ "fst (projr (chainTLS sample_env ?n))"
        "snd (projr (chainTLS sample_env ?n))"] tn f gn
    by (auto split: sum.splits)
  have c2: "Certificates (fst (projr (chainTLS sample_env ?m)))
              = [KeyPair ''/etc/gost/cert.pem'' ''/etc/gost/key.pem'']"
    using client_certificate_best_effort[of sample_env ?m _ "fst (projr (chainTLS sample_env ?m))"
        "snd (projr (chainTLS sample_env ?m))"] tm gm
    by (auto split: sum.splits)
  have c3: "loadCA sample_env (Get ?k ''ca'') = Inl (Error ''no such file'')"
    using client_certificate_best_effort[of sample_env ?k "Error ''no such file''"] tk by blast
  have gk: "Get ?k ''ca'' = ''/missing.pem''" by code_simp
  from f obtain e where fe: "LoadX509KeyPair sample_env ''/missing.pem'' ''/missing.key'' = Inl e"
    by (cases "LoadX509KeyPair sample_env ''/missing.pem'' ''/missing.key''") auto
  have c4: "\<exists>cfg. h ! 3 = TLSConfigHandshakeOption cfg \<and> Certificates cfg = []"
    using client_certificate_best_effort[of sample_env _ _ _ _ ?s b h sport] b fe gb'
    by simp
  have pn: "ParseNode sample_env ?s = Inr ?n \<and> Transport ?n \<noteq> ''obfs4''" by code_simp
  have ok: "\<not> isl (parseChainNode sample_env ?s)" by code_simp
  have "isl (parseChainNode (sample_env\<lparr>LoadX509KeyPair := (\<lambda>c k. Inr (KeyPair c k))\<rparr>) ?s)
      = isl (parseChainNode sample_env ?s)"
    using client_certificate_best_effort[where E = sample_env and ns = ?s and ?n0.0 = ?n
        and f = "\<lambda>c k. Inr (KeyPair c k)"] pn by blast
  with ok have c5: "\<not> isl (parseChainNode (sample_env\<lparr>LoadX509KeyPair := (\<lambda>c k. Inr (KeyPair c k))\<rparr>) ?s)"
    by simp
  from f c1 c2 tk c3 gk c4 b ok c5 show ?thesis by auto
qed



text \<open>
  Claim C5. When the \<open>ip\<close> option of a chain-node spec resolves to n > 0 addresses,
  parseChainNode returns exactly n nodes: the i-th one is the base node with \<open>Addr\<close> set
  to the i-th address and with the handshake options extended by that address, every other
  field being the base node's; the unexpanded base node is not among them. When the option
  resolves to no address, the result is the base node alone. Once the base node is built,
  parseChainNode does return these nodes unless the transport is obfs4 and the negotiation
  fails for one of them.
\<close>

theorem ip_expansion:
  assumes "chainBase E ns = Inr (n, h, sport)"
    and "parseIP E (Get n ''ip'') sport = ips"
  shows "(parseChainNode E ns = Inr nodes \<longrightarrow>
           (ips \<noteq> [] \<longrightarrow>
              length nodes = length ips
            \<and> (\<forall>i < length ips.
                  nodes ! i = n\<lparr>Addr := ips ! i,
                                 HandshakeOptions := h @ [AddrHandshakeOption (ips ! i)]\<rparr>)
            \<and> n\<lparr>HandshakeOptions := h\<rparr> \<notin> set nodes)
         \<and> (ips = [] \<longrightarrow> nodes = [n\<lparr>HandshakeOptions := h\<rparr>]))
       \<and> ((Transport n = ''obfs4'' \<longrightarrow>
              (\<forall>nd \<in> set (expandIPs n h ips). Obfs4Init E nd False = None))
            \<longrightarrow> (\<exists>nodes'. parseChainNode E ns = Inr nodes'))"
proof (intro conjI impI)
  assume "Transport n = ''obfs4'' \<longrightarrow>
              (\<forall>nd \<in> set (expandIPs n h ips). Obfs4Init E nd False = None)"
  with parseChainNode_Inr_iff[OF assms(1)] assms(2)
  show "\<exists>nodes'. parseChainNode E ns = Inr nodes'" by simp
next
  assume p: "parseChainNode E ns = Inr nodes"
  then obtain n' h' sport' where
    b: "chainBase E ns = Inr (n', h', sport')"
    and e: "nodes = expandIPs n' h' (parseIP E (Get n' ''ip'') sport')"
    by (rule parseChainNodeE)
  from b assms(1) have eq: "n' = n" "h' = h" "sport' = sport" by simp_all
  from e eq assms(2) have nodes: "nodes = expandIPs n h ips" by simp
  {
    assume "ips = []"
    with nodes show "nodes = [n\<lparr>HandshakeOptions := h\<rparr>]" by (simp add: expandIPs_def)
  }
  assume ne: "ips \<noteq> []"
  with nodes have m: "nodes = map (\<lambda>ip. n\<lparr>Addr := ip,
      HandshakeOptions := h @ [AddrHandshakeOption ip]\<rparr>) ips"
    by (simp add: expandIPs_def Clone_def)
  then show "length nodes = length ips" by simp
  from m show "\<forall>i < length ips.
                  nodes ! i = n\<lparr>Addr := ips ! i,
                                 HandshakeOptions := h @ [AddrHandshakeOption (ips ! i)]\<rparr>"
    by simp
  show "n\<lparr>HandshakeOptions := h\<rparr> \<notin> set nodes"
  proof
    assume "n\<lparr>HandshakeOptions := h\<rparr> \<in> set nodes"
    with m obtain ip where
      "n\<lparr>HandshakeOptions := h\<rparr> = n\<lparr>Addr := ip, HandshakeOptions := h @ [AddrHandshakeOption ip]\<rparr>"
      by auto
    then have "HandshakeOptions (n\<lparr>HandshakeOptions := h\<rparr>)
             = HandshakeOptions (n\<lparr>Addr := ip, HandshakeOptions := h @ [AddrHandshakeOption ip]\<rparr>)"
      by (rule arg_cong)
    then show False by simp
  qed
qed

theorem ip_expansion_witness:
  "(\<exists>n h sport nodes.
      chainBase sample_env ''socks5://proxy.example:1080?ip=1.2.3.4,1.2.3.5'' = Inr (n, h, sport)
    \<and> parseIP sample_env (Get n ''ip'') sport = [''1.2.3.4:1080'', ''1.2.3.5:1080'']
    \<and> parseChainNode sample_env ''socks5://proxy.example:1080?ip=1.2.3.4,1.2.3.5'' = Inr nodes
    \<and> length nodes = 2
    \<and> nodes ! 0 = n\<lparr>Addr := ''1.2.3.4:1080'',
                       HandshakeOptions := h @ [AddrHandshakeOption ''1.2.3.4:1080'']\<rparr>
    \<and> nodes ! 1 = n\<lparr>Addr := ''1.2.3.5:1080'',
                       HandshakeOptions := h @ [AddrHandshakeOption ''1.2.3.5:1080'']\<rparr>
    \<and> n\<lparr>HandshakeOptions := h\<rparr> \<notin> set nodes)
 \<and> (\<exists>n h sport.
      chainBase sample_env ''socks5://u:p@10.0.0.1:1080'' = Inr (n, h, sport)
    \<and> parseIP sample_env (Get n ''ip'') sport = []
    \<and> parseChainNode sample_env ''socks5://u:p@10.0.0.1:1080'' = Inr [n\<lparr>HandshakeOptions := h\<rparr>])"
proof -
  let ?s = "''socks5://proxy.example:1080?ip=1.2.3.4,1.2.3.5''"
  let ?b = "projr (chainBase sample_env ?s)"
  let ?u = "''socks5://u:p@10.0.0.1:1080''"
  let ?d = "projr (chainBase sample_env ?u)"
  have b: "chainBase sample_env ?s = Inr (fst ?b, fst (snd ?b), snd (snd ?b))"
  proof -
    have "\<not> isl (chainBase sample_env ?s)" by code_simp
    then show ?thesis by (simp add: Inr_projr)
  qed
  have d: "chainBase sample_env ?u = Inr (fst ?d, fst (snd ?d), snd (snd ?d))"
  proof -
    have "\<not> isl (chainBase sample_env ?u)" by code_simp
    then show ?thesis by (simp add: Inr_projr)
  qed
  have ips: "parseIP sample_env (Get (fst ?b) ''ip'') (snd (snd ?b)) = [''1.2.3.4:1080'', ''1.2.3.5:1080'']"
    by code_simp
  have nips: "parseIP sample_env (Get (fst ?d) ''ip'') (snd (snd ?d)) = []" by code_simp
  have tb: "Transport (fst ?b) \<noteq> ''obfs4''" by code_simp
  have td: "Transport (fst ?d) \<noteq> ''obfs4''" by code_simp
  from ip_expansion[OF b ips] tb obtain nodes where n: "parseChainNode sample_env ?s = Inr nodes"
    by blast
  from ip_expansion[OF d nips] td obtain ns' where n': "parseChainNode sample_env ?u = Inr ns'"
    by blast
  from ip_expansion[OF d nips, of ns'] n'
  have w2: "parseChainNode sample_env ?u = Inr [(fst ?d)\<lparr>HandshakeOptions := fst (snd ?d)\<rparr>]"
    by simp
  from ip_expansion[OF b ips, of nodes] n have
    "length nodes = 2"
    "nodes ! 0 = (fst ?b)\<lparr>Addr := ''1.2.3.4:1080'',
                       HandshakeOptions := fst (snd ?b) @ [AddrHandshakeOption ''1.2.3.4:1080'']\<rparr>"
    "nodes ! 1 = (fst ?b)\<lparr>Addr := ''1.2.3.5:1080'',
                       HandshakeOptions := fst (snd ?b) @ [AddrHandshakeOption ''1.2.3.5:1080'']\<rparr>"
    "(fst ?b)\<lparr>HandshakeOptions := fst (snd ?b)\<rparr> \<notin> set nodes"
    by (simp_all add: nth_Cons' All_less_Suc numeral_2_eq_2)
  with b n ips have w1: "\<exists>n h sport nodes.
      chainBase sample_env ?s = Inr (n, h, sport)
    \<and> parseIP sample_env (Get n ''ip'') sport = [''1.2.3.4:1080'', ''1.2.3.5:1080'']
    \<and> parseChainNode sample_env ?s = Inr nodes
    \<and> length nodes = 2
    \<and> nodes ! 0 = n\<lparr>Addr := ''1.2.3.4:1080'',
                       HandshakeOptions := h @ [AddrHandshakeOption ''1.2.3.4:1080'']\<rparr>
    \<and> nodes ! 1 = n\<lparr>Addr := ''1.2.3.5:1080'',
                       HandshakeOptions := h @ [AddrHandshakeOption ''1.2.3.5:1080'']\<rparr>
    \<and> n\<lparr>HandshakeOptions := h\<rparr> \<notin> set nodes"
    by blast
  from d nips w2 have "\<exists>n h sport.
      chainBase sample_env ?u = Inr (n, h, sport)
    \<and> parseIP sample_env (Get n ''ip'') sport = []
    \<and> parseChainNode sample_env ?u = Inr [n\<lparr>HandshakeOptions := h\<rparr>]"
    by blast
  with w1 show ?thesis by blast
qed

text \<open>
  Claim C6. When parseChain succeeds, the chain has one node group per chain-node spec, in
  spec order. For the k-th spec (counting from 1) parseChain assembles the group with group
  ID k whose nodes are the nodes parseChainNode returns for that spec, in that order, with
  IDs 1, 2, ..., n. That group is the group of the chain when the first node names no peer
  file; when it names one, the group of the chain is what the reload of the peer file
  makes of that group, and then, provided the reload keeps the group ID and keeps the
  nodes it is given at the head of the group, the group of the chain has group ID k and
  begins with those n nodes. parseChain succeeds whenever parseChainNode succeeds on every
  spec and the peer file of each first node, when one is named, can be opened.
\<close>

theorem parseChain_ids:
  "(parseChain E r = Inr c \<longrightarrow>
      length (NodeGroups c) = length (ChainNodes r)
    \<and> (\<forall>k < length (ChainNodes r).
          \<exists>nodes G. parseChainNode E (ChainNodes r ! k) = Inr nodes
            \<and> GroupID G = int k + 1
            \<and> length (GroupNodes G) = length nodes
            \<and> map ID (GroupNodes G) = [1 .. int (length nodes)]
            \<and> (\<forall>i < length nodes. GroupNodes G ! i = (nodes ! i)\<lparr>ID := int i + 1\<rparr>)
            \<and> NodeGroups c ! k =
                (if Get (hd nodes) ''peer'' = [] then G
                 else (PeerReload E (Get (hd nodes) ''peer'') G (GroupNodes G))
                        \<lparr>PeerFile := Some (Get (hd nodes) ''peer'')\<rparr>)))
 \<and> ((\<forall>ns \<in> set (ChainNodes r). \<exists>nodes. parseChainNode E ns = Inr nodes
         \<and> (Get (hd nodes) ''peer'' = [] \<or> os_Open E (Get (hd nodes) ''peer'') = None))
      \<longrightarrow> (\<exists>c'. parseChain E r = Inr c'))
 \<and> (parseChain E r = Inr c
      \<and> (\<forall>cfg g. GroupID (PeerReload E cfg g (GroupNodes g)) = GroupID g
               \<and> take (length (GroupNodes g)) (GroupNodes (PeerReload E cfg g (GroupNodes g)))
                   = GroupNodes g)
      \<longrightarrow> (\<forall>k < length (ChainNodes r).
             GroupID (NodeGroups c ! k) = int k + 1
           \<and> (\<exists>nodes. parseChainNode E (ChainNodes r ! k) = Inr nodes
                 \<and> map ID (take (length nodes) (GroupNodes (NodeGroups c ! k)))
                     = [1 .. int (length nodes)]
                 \<and> (\<forall>i < length nodes.
                       take (length nodes) (GroupNodes (NodeGroups c ! k)) ! i
                         = (nodes ! i)\<lparr>ID := int i + 1\<rparr>))))"
proof (intro conjI impI allI)
  assume "\<forall>ns \<in> set (ChainNodes r). \<exists>nodes. parseChainNode E ns = Inr nodes
         \<and> (Get (hd nodes) ''peer'' = [] \<or> os_Open E (Get (hd nodes) ''peer'') = None)"
  then show "\<exists>c'. parseChain E r = Inr c'" by (rule parseChain_total)
next
  assume a: "parseChain E r = Inr c"
  from parseChain_groups[OF a] show "length (NodeGroups c) = length (ChainNodes r)" by blast
  fix k assume k: "k < length (ChainNodes r)"
  with parseChain_groups[OF a] obtain nodes G where
    h: "parseChainNode E (ChainNodes r ! k) = Inr nodes" "GroupID G = int k + 1"
       "GroupNodes G = assignIDs 1 nodes"
       "NodeGroups c ! k =
                (if Get (hd nodes) ''peer'' = [] then G
                 else (PeerReload E (Get (hd nodes) ''peer'') G (GroupNodes G))
                        \<lparr>PeerFile := Some (Get (hd nodes) ''peer'')\<rparr>)"
    by blast
  from h(3) have "length (GroupNodes G) = length nodes"
    "map ID (GroupNodes G) = [1 .. int (length nodes)]"
    "\<forall>i < length nodes. GroupNodes G ! i = (nodes ! i)\<lparr>ID := int i + 1\<rparr>"
    by (simp_all add: assignIDs_ids1 assignIDs_nth1)
  with h(1,2,4)
  show "\<exists>nodes G. parseChainNode E (ChainNodes r ! k) = Inr nodes
            \<and> GroupID G = int k + 1
            \<and> length (GroupNodes G) = length nodes
            \<and> map ID (GroupNodes G) = [1 .. int (length nodes)]
            \<and> (\<forall>i < length nodes. GroupNodes G ! i = (nodes ! i)\<lparr>ID := int i + 1\<rparr>)
            \<and> NodeGroups c ! k =
                (if Get (hd nodes) ''peer'' = [] then G
                 else (PeerReload E (Get (hd nodes) ''peer'') G (GroupNodes G))
                        \<lparr>PeerFile := Some (Get (hd nodes) ''peer'')\<rparr>)"
    by blast
next
  fix k
  assume a: "parseChain E r = Inr c
      \<and> (\<forall>cfg g. GroupID (PeerReload E cfg g (GroupNodes g)) = GroupID g
               \<and> take (length (GroupNodes g)) (GroupNodes (PeerReload E cfg g (GroupNodes g)))
                   = GroupNodes g)"
    and k: "k < length (ChainNodes r)"
  from a have pc: "parseChain E r = Inr c" by blast
  from a have keep: "\<And>cfg g. GroupID (PeerReload E cfg g (GroupNodes g)) = GroupID g"
    "\<And>cfg g. take (length (GroupNodes g)) (GroupNodes (PeerReload E cfg g (GroupNodes g)))
                   = GroupNodes g" by blast+
  from k parseChain_groups[OF pc] obtain nodes G where
    h: "parseChainNode E (ChainNodes r ! k) = Inr nodes" "GroupID G = int k + 1"
       "GroupNodes G = assignIDs 1 nodes"
       "NodeGroups c ! k =
                (if Get (hd nodes) ''peer'' = [] then G
                 else (PeerReload E (Get (hd nodes) ''peer'') G (GroupNodes G))
                        \<lparr>PeerFile := Some (Get (hd nodes) ''peer'')\<rparr>)"
    by blast
  from h(3) have len: "length (GroupNodes G) = length nodes" by simp
  have id: "GroupID (NodeGroups c ! k) = int k + 1"
    using h(2,4) keep(1)[of "Get (hd nodes) ''peer''" G] by (simp split: if_splits)
  have tk: "take (length nodes) (GroupNodes (NodeGroups c ! k)) = assignIDs 1 nodes"
    using h(3,4) len keep(2)[of G "Get (hd nodes) ''peer''"] by (simp split: if_splits)
  show "GroupID (NodeGroups c ! k) = int k + 1" by (rule id)
  from tk h(1)
  show "\<exists>nodes. parseChainNode E (ChainNodes r ! k) = Inr nodes
                 \<and> map ID (take (length nodes) (GroupNodes (NodeGroups c ! k)))
                     = [1 .. int (length nodes)]
                 \<and> (\<forall>i < length nodes.
                       take (length nodes) (GroupNodes (NodeGroups c ! k)) ! i
                         = (nodes ! i)\<lparr>ID := int i + 1\<rparr>)"
    by (intro exI[of _ nodes]) (simp add: assignIDs_ids1 assignIDs_nth1)
qed

theorem parseChain_ids_witness:
  "\<exists>c. parseChain sample_env (sample_route []
          [''socks5://u:p@10.0.0.1:1080'', ''socks5://proxy.example:1080?ip=1.2.3.4,1.2.3.5'',
           ''socks5://10.0.0.1:1080?peer=/etc/gost/peers.txt'']) = Inr c
     \<and> length (NodeGroups c) = 3
     \<and> GroupID (NodeGroups c ! 0) = 1
     \<and> GroupID (NodeGroups c ! 1) = 2
     \<and> GroupID (NodeGroups c ! 2) = 3
     \<and> map ID (GroupNodes (NodeGroups c ! 0)) = [1]
     \<and> map ID (GroupNodes (NodeGroups c ! 1)) = [1, 2]
     \<and> map ID (take 1 (GroupNodes (NodeGroups c ! 2))) = [1]"
proof -
  let ?a = "''socks5://u:p@10.0.0.1:1080''"
  let ?b = "''socks5://proxy.example:1080?ip=1.2.3.4,1.2.3.5''"
  let ?p = "''socks5://10.0.0.1:1080?peer=/etc/gost/peers.txt''"
  let ?r = "sample_route [] [?a, ?b, ?p]"
  let ?na = "projr (parseChainNode sample_env ?a)"
  let ?nb = "projr (parseChainNode sample_env ?b)"
  let ?np = "projr (parseChainNode sample_env ?p)"
  have pa: "parseChainNode sample_env ?a = Inr ?na" by (rule Inr_projr) code_simp
  have pb: "parseChainNode sample_env ?b = Inr ?nb" by (rule Inr_projr) code_simp
  have pp: "parseChainNode sample_env ?p = Inr ?np" by (rule Inr_projr) code_simp
  have ga: "Get (hd ?na) ''peer'' = []" by code_simp
  have gb: "Get (hd ?nb) ''peer'' = []" by code_simp
  have gp: "os_Open sample_env (Get (hd ?np) ''peer'') = None" by code_simp
  have l: "length ?na = 1" "length ?nb = 2" "length ?np = 1" by code_simp+
  have u12: "[1 .. (2::int)] = [1, 2]" "[1 .. (1::int)] = [1]" by (simp_all add: upto.simps)
  have keep: "\<forall>cfg g. GroupID (PeerReload sample_env cfg g (GroupNodes g)) = GroupID g
               \<and> take (length (GroupNodes g)) (GroupNodes (PeerReload sample_env cfg g (GroupNodes g)))
                   = GroupNodes g"
    by (simp add: sample_env_def)
  have valid: "\<forall>ns \<in> set (ChainNodes ?r). \<exists>nodes. parseChainNode sample_env ns = Inr nodes
         \<and> (Get (hd nodes) ''peer'' = [] \<or> os_Open sample_env (Get (hd nodes) ''peer'') = None)"
    using pa pb pp ga gb gp by (auto simp: sample_route_def)
  from parseChain_ids[of sample_env ?r, THEN conjunct2, THEN conjunct1, THEN mp, OF valid]
  obtain c where c: "parseChain sample_env ?r = Inr c" ..
  note T = parseChain_ids[of sample_env ?r c]
  note T1 = T[THEN conjunct1, THEN mp, OF c]
  from T1 have len: "length (NodeGroups c) = 3" by (simp add: sample_route_def)
  from T1 have A: "\<forall>k < length (ChainNodes ?r).
          \<exists>nodes G. parseChainNode sample_env (ChainNodes ?r ! k) = Inr nodes
            \<and> map ID (GroupNodes G) = [1 .. int (length nodes)]
            \<and> NodeGroups c ! k =
                (if Get (hd nodes) ''peer'' = [] then G
                 else (PeerReload sample_env (Get (hd nodes) ''peer'') G (GroupNodes G))
                        \<lparr>PeerFile := Some (Get (hd nodes) ''peer'')\<rparr>)"
    by blast
  from A[rule_format, of 0] pa ga l(1) u12 have n0: "map ID (GroupNodes (NodeGroups c ! 0)) = [1]"
    by (auto simp: sample_route_def)
  from A[rule_format, of 1] pb gb l(2) u12 have n1: "map ID (GroupNodes (NodeGroups c ! 1)) = [1, 2]"
    by (auto simp: sample_route_def)
  from T[THEN conjunct2, THEN conjunct2, THEN mp, OF conjI[OF c keep]]
  have B: "\<forall>k < length (ChainNodes ?r).
             GroupID (NodeGroups c ! k) = int k + 1
           \<and> (\<exists>nodes. parseChainNode sample_env (ChainNodes ?r ! k) = Inr nodes
                 \<and> map ID (take (length nodes) (GroupNodes (NodeGroups c ! k)))
                     = [1 .. int (length nodes)])"
    by blast
  from B[rule_format, of 0] have i0: "GroupID (NodeGroups c ! 0) = 1" by (simp add: sample_route_def)
  from B[rule_format, of 1] have i1: "GroupID (NodeGroups c ! 1) = 2" by (simp add: sample_route_def)
  from B[rule_format, of 2] have i2: "GroupID (NodeGroups c ! 2) = 3" by (simp add: sample_route_def)
  from B[rule_format, of 2] pp l(3) u12
  have n2: "map ID (take 1 (GroupNodes (NodeGroups c ! 2))) = [1]"
    by (auto simp: sample_route_def)
  from c len i0 i1 i2 n0 n1 n2 show ?thesis by (intro exI[of _ c]) simp
qed

text \<open>
  Claim C7. The credential of a chain node: one embedded in the spec is kept, and
  neither the \<open>auth\<close> nor the \<open>secrets\<close> option is consulted (no failure can come
  from them); otherwise a non-empty \<open>auth\<close> option is base64-decoded and split at its
  first colon into user and password (user alone when there is no colon); otherwise the
  first entry parseUsers reads from the \<open>secrets\<close> option, if any, is the credential.
  Every node parseChainNode returns carries the credential so resolved.
\<close>

theorem chain_credential:
  "(User n0 = Some u \<longrightarrow> chainUser E n0 = Inr n0)
 \<and> (User n0 = None \<and> Get n0 ''auth'' \<noteq> [] \<and> DecodeString E (Get n0 ''auth'') = Inr cs
      \<longrightarrow> chainUser E n0 = Inr (n0\<lparr>User := Some (userOfToken cs)\<rparr>))
 \<and> (User n0 = None \<and> Get n0 ''auth'' = [] \<and> parseUsers E (Get n0 ''secrets'') = (us, None)
      \<longrightarrow> chainUser E n0 = Inr (n0\<lparr>User := (case us of [] \<Rightarrow> None | v # _ \<Rightarrow> Some v)\<rparr>))
 \<and> (CHR '':'' \<notin> set cs \<longrightarrow> userOfToken cs = url_User cs)
 \<and> (CHR '':'' \<notin> set a \<longrightarrow> userOfToken (a @ CHR '':'' # b) = url_UserPassword a b)
 \<and> (ParseNode E ns = Inr n0 \<and> parseChainNode E ns = Inr nodes
      \<longrightarrow> (\<exists>n1. chainUser E n0 = Inr n1 \<and> (\<forall>nd \<in> set nodes. User nd = User n1)))"
proof (intro conjI impI)
  assume "User n0 = Some u"
  then show "chainUser E n0 = Inr n0"
    by (simp add: chainUser_def authUser_def secretsUser_def)
next
  assume "User n0 = None \<and> Get n0 ''auth'' \<noteq> [] \<and> DecodeString E (Get n0 ''auth'') = Inr cs"
  then show "chainUser E n0 = Inr (n0\<lparr>User := Some (userOfToken cs)\<rparr>)"
    by (simp add: chainUser_def authUser_def secretsUser_def)
next
  assume "User n0 = None \<and> Get n0 ''auth'' = [] \<and> parseUsers E (Get n0 ''secrets'') = (us, None)"
  then show "chainUser E n0 = Inr (n0\<lparr>User := (case us of [] \<Rightarrow> None | v # _ \<Rightarrow> Some v)\<rparr>)"
    by (cases us) (simp_all add: chainUser_def authUser_def secretsUser_def)
next
  assume "CHR '':'' \<notin> set cs" then show "userOfToken cs = url_User cs"
    by (rule userOfToken_no_colon)
next
  assume "CHR '':'' \<notin> set a" then show "userOfToken (a @ CHR '':'' # b) = url_UserPassword a b"
    by (rule userOfToken_colon)
next
  assume a: "ParseNode E ns = Inr n0 \<and> parseChainNode E ns = Inr nodes"
  then obtain n h sport where b: "chainBase E ns = Inr (n, h, sport)"
    and e: "nodes = expandIPs n h (parseIP E (Get n ''ip'') sport)"
    by (auto elim: parseChainNodeE)
  from chainBase_User[OF b] a obtain n1 where n1: "chainUser E n0 = Inr n1" "User n = User n1"
    by blast
  from e n1(2) have "\<forall>nd \<in> set nodes. User nd = User n1"
    by (auto dest: expandIPs_User)
  with n1(1) show "\<exists>n1. chainUser E n0 = Inr n1 \<and> (\<forall>nd \<in> set nodes. User nd = User n1)"
    by blast
qed

theorem chain_credential_witness:
  "chainUser sample_env (projr (sample_ParseNode ''socks5+tls://u:p@10.0.0.1:1080?auth=!!&secrets=/missing''))
     = Inr (projr (sample_ParseNode ''socks5+tls://u:p@10.0.0.1:1080?auth=!!&secrets=/missing''))
 \<and> chainUser sample_env (projr (sample_ParseNode ''socks5://10.0.0.1:1080?auth=dTpw''))
     = Inr ((projr (sample_ParseNode ''socks5://10.0.0.1:1080?auth=dTpw''))
            \<lparr>User := Some (Userinfo ''u'' ''p'' True)\<rparr>)
 \<and> chainUser sample_env (projr (sample_ParseNode ''socks5://10.0.0.1:1080?secrets=/etc/gost/secrets''))
     = Inr ((projr (sample_ParseNode ''socks5://10.0.0.1:1080?secrets=/etc/gost/secrets''))
            \<lparr>User := Some (Userinfo ''admin'' ''secret'' True)\<rparr>)
 \<and> userOfToken ''user'' = Userinfo ''user'' [] False
 \<and> userOfToken ''u:p:q'' = Userinfo ''u'' ''p:q'' True
 \<and> map User (projr (parseChainNode sample_env ''socks5+tls://u:p@10.0.0.1:1080?auth=!!&secrets=/missing''))
     = [Some (Userinfo ''u'' ''p'' True)]"
proof -
  let ?a = "''socks5+tls://u:p@10.0.0.1:1080?auth=!!&secrets=/missing''"
  let ?na = "projr (sample_ParseNode ?a)"
  let ?nb = "projr (sample_ParseNode ''socks5://10.0.0.1:1080?auth=dTpw'')"
  let ?nc = "projr (sample_ParseNode ''socks5://10.0.0.1:1080?secrets=/etc/gost/secrets'')"
  have ua: "User ?na = Some (Userinfo ''u'' ''p'' True)" by code_simp
  have hb: "User ?nb = None \<and> Get ?nb ''auth'' \<noteq> []
            \<and> DecodeString sample_env (Get ?nb ''auth'') = Inr ''u:p''" by code_simp
  have hc: "User ?nc = None \<and> Get ?nc ''auth'' = []
            \<and> parseUsers sample_env (Get ?nc ''secrets'') = ([Userinfo ''admin'' ''secret'' True], None)"
    by code_simp
  have pa: "ParseNode sample_env ?a = Inr ?na" by code_simp
  have "\<not> isl (parseChainNode sample_env ?a)" by code_simp
  then have ca: "parseChainNode sample_env ?a = Inr (projr (parseChainNode sample_env ?a))"
    by (rule Inr_projr)
  have la: "length (projr (parseChainNode sample_env ?a)) = 1" by code_simp
  have t1: "chainUser sample_env ?na = Inr ?na"
    using chain_credential[of ?na "Userinfo ''u'' ''p'' True" sample_env] ua by blast
  have t2: "chainUser sample_env ?nb = Inr (?nb\<lparr>User := Some (userOfToken ''u:p'')\<rparr>)"
    using chain_credential[of ?nb _ sample_env "''u:p''"] hb by blast
  have t3: "chainUser sample_env ?nc = Inr (?nc\<lparr>User := Some (Userinfo ''admin'' ''secret'' True)\<rparr>)"
    using chain_credential[of ?nc _ sample_env _ "[Userinfo ''admin'' ''secret'' True]"] hc by simp
  have t4: "userOfToken ''user'' = url_User ''user''"
    using chain_credential[of _ _ _ "''user''"] by simp
  have t5: "userOfToken (''u'' @ CHR '':'' # ''p:q'') = url_UserPassword ''u'' ''p:q''"
    using chain_credential[of _ _ _ _ _ "''u''" "''p:q''"] by simp
  have t5': "userOfToken (''u'' @ CHR '':'' # ''p'') = url_UserPassword ''u'' ''p''"
    using chain_credential[of _ _ _ _ _ "''u''" "''p''"] by simp
  have t6: "\<forall>nd \<in> set (projr (parseChainNode sample_env ?a)). User nd = User ?na"
    using chain_credential[of ?na _ sample_env _ _ _ _ ?a "projr (parseChainNode sample_env ?a)"]
      pa ca t1 by auto
  from la obtain nd where nd: "projr (parseChainNode sample_env ?a) = [nd]"
    by (cases "projr (parseChainNode sample_env ?a)") auto
  with t6 ua have t6': "map User (projr (parseChainNode sample_env ?a)) = [Some (Userinfo ''u'' ''p'' True)]"
    by simp
  from t1 t2 t3 t4 t5 t5' t6' show ?thesis
    by (simp add: url_User_def url_UserPassword_def)
qed



text \<open>
  Claim C9, as amended. For a serve-node spec whose transport key is not \<open>tcp\<close>, the
  \<open>sourceInterface\<close> option is ignored: the listener, and the whole round of the loop of
  GenRouters for that spec, are the same whatever the network interfaces of the host are
  (so a missing interface cannot make construction fail), and the address the listener
  constructor is given is the address of the spec. The TUN and TAP listeners are the
  exception to the last part: they are given a device configuration (name, net, peer, mtu,
  routes, gateway) and no address, as the counterexample below shows on a \<open>tun\<close> spec.
\<close>

theorem source_interface_ignored:
  "(Transport n \<noteq> ''tcp'' \<longrightarrow>
      serveListener (E\<lparr>InterfaceByName := f, InterfaceAddrs := g, To4 := t,
                        ResolveTCPAddr := rs, TCPAddr_String := st\<rparr>) c n tlsCfg auth
        = serveListener E c n tlsCfg auth)
 \<and> (Transport n \<noteq> ''tcp'' \<and> serveListener E c n tlsCfg auth = Inr (ln, c') \<longrightarrow>
      listenerAddr ln = (if Transport n = ''tun'' \<or> Transport n = ''tap'' then None
                         else Some (Addr n)))
 \<and> (ParseNode E ns = Inr n0 \<and> Transport n0 \<noteq> ''tcp'' \<longrightarrow>
      serveNode (E\<lparr>InterfaceByName := f, InterfaceAddrs := g, To4 := t,
                    ResolveTCPAddr := rs, TCPAddr_String := st\<rparr>) c ns
        = serveNode E c ns)
 \<and> (ParseNode E ns = Inr n0 \<and> Transport n0 \<noteq> ''tcp'' \<and> serveNode E c ns = Inr (rt, c') \<longrightarrow>
      listenerAddr (RouterListener rt)
        = (if Transport n0 = ''tun'' \<or> Transport n0 = ''tap'' then None else Some (Addr n0)))"
proof (intro conjI impI)
  assume "Transport n \<noteq> ''tcp''"
  then show "serveListener (E\<lparr>InterfaceByName := f, InterfaceAddrs := g, To4 := t,
                        ResolveTCPAddr := rs, TCPAddr_String := st\<rparr>) c n tlsCfg auth
        = serveListener E c n tlsCfg auth" by (rule serveListener_frame)
next
  assume "Transport n \<noteq> ''tcp'' \<and> serveListener E c n tlsCfg auth = Inr (ln, c')"
  then show "listenerAddr ln = (if Transport n = ''tun'' \<or> Transport n = ''tap'' then None
                         else Some (Addr n))"
    by (intro listenerAddr_serveListener) blast+
next
  assume "ParseNode E ns = Inr n0 \<and> Transport n0 \<noteq> ''tcp''"
  then show "serveNode (E\<lparr>InterfaceByName := f, InterfaceAddrs := g, To4 := t,
                    ResolveTCPAddr := rs, TCPAddr_String := st\<rparr>) c ns
        = serveNode E c ns"
    by (intro serveNode_frame) blast+
next
  assume a: "ParseNode E ns = Inr n0 \<and> Transport n0 \<noteq> ''tcp'' \<and> serveNode E c ns = Inr (rt, c')"
  then have "serveNode E c ns = Inr (rt, c')" by blast
  then show "listenerAddr (RouterListener rt)
        = (if Transport n0 = ''tun'' \<or> Transport n0 = ''tap'' then None else Some (Addr n0))"
  proof (rule serveNodeE)
    fix m0 n auth tlsCfg ln
    assume h: "ParseNode E ns = Inr m0" "serveAuth E m0 = Inr (n, auth)"
      "serveListener E c n tlsCfg auth = Inr (ln, c')" "RouterListener rt = ln"
    with a have m0: "m0 = n0" by simp
    from h(2) m0 have f: "Transport n = Transport n0" "Addr n = Addr n0"
      by (auto dest: serveAuth_Transport)
    with a have "Transport n \<noteq> ''tcp''" by simp
    from listenerAddr_serveListener[OF h(3) this] f h(4) show ?thesis by simp
  qed
qed

theorem source_interface_ignored_counterexample:
  "Transport (projr (ParseNode sample_env ''tun://:8421?net=192.168.123.1/24&sourceInterface=eth7'')) = ''tun''
 \<and> Addr (projr (ParseNode sample_env ''tun://:8421?net=192.168.123.1/24&sourceInterface=eth7'')) = '':8421''
 \<and> map RouterListener (fst (projr (GenRouters sample_env
        (sample_route [''tun://:8421?net=192.168.123.1/24&sourceInterface=eth7''] []))))
     = [TunListener \<lparr>Tun_Name = [], Tun_Addr = ''192.168.123.1/24'', Tun_Peer = [],
                      Tun_MTU = 0, Tun_Routes = [], Tun_Gateway = []\<rparr>]
 \<and> map (listenerAddr \<circ> RouterListener) (fst (projr (GenRouters sample_env
        (sample_route [''tun://:8421?net=192.168.123.1/24&sourceInterface=eth7''] []))))
     = [None]"
  by code_simp

theorem source_interface_ignored_witness:
  "serveNode (sample_env\<lparr>InterfaceByName := (\<lambda>s. Inr \<lparr>IfName = s, IfIndex = 7\<rparr>),
                         InterfaceAddrs := (\<lambda>i. Inr [IP [10, 0, 0, 7]]),
                         To4 := Some, ResolveTCPAddr := ResolveTCPAddr sample_env,
                         TCPAddr_String := (\<lambda>a. ''10.0.0.7:8443'')\<rparr>)
       \<lparr>ChainRetries = 0, ChainMark = 0, ChainInterface = [], NodeGroups = []\<rparr>
       ''socks5+tls://:8443?sourceInterface=eth7''
   = serveNode sample_env
       \<lparr>ChainRetries = 0, ChainMark = 0, ChainInterface = [], NodeGroups = []\<rparr>
       ''socks5+tls://:8443?sourceInterface=eth7''
 \<and> \<not> isl (serveNode sample_env
       \<lparr>ChainRetries = 0, ChainMark = 0, ChainInterface = [], NodeGroups = []\<rparr>
       ''socks5+tls://:8443?sourceInterface=eth7'')
 \<and> listenerAddr (RouterListener (fst (projr (serveNode sample_env
       \<lparr>ChainRetries = 0, ChainMark = 0, ChainInterface = [], NodeGroups = []\<rparr>
       ''socks5+tls://:8443?sourceInterface=eth7'')))) = Some '':8443''
 \<and> listenerAddr (RouterListener (fst (projr (serveNode sample_env
       \<lparr>ChainRetries = 0, ChainMark = 0, ChainInterface = [], NodeGroups = []\<rparr>
       ''tun://:8421?net=192.168.123.1/24&sourceInterface=eth7'')))) = None
 \<and> serveListener (sample_env\<lparr>InterfaceByName := (\<lambda>s. Inr \<lparr>IfName = s, IfIndex = 7\<rparr>),
                         InterfaceAddrs := (\<lambda>i. Inr [IP [10, 0, 0, 7]]),
                         To4 := Some, ResolveTCPAddr := ResolveTCPAddr sample_env,
                         TCPAddr_String := (\<lambda>a. ''10.0.0.7:8443'')\<rparr>)
       \<lparr>ChainRetries = 0, ChainMark = 0, ChainInterface = [], NodeGroups = []\<rparr>
       (projr (ParseNode sample_env ''socks5+tls://:8443?sourceInterface=eth7'')) None None
   = Inr (TLSListener '':8443'' None,
          \<lparr>ChainRetries = 0, ChainMark = 0, ChainInterface = [], NodeGroups = []\<rparr>)
 \<and> listenerAddr (TLSListener '':8443'' None) = Some '':8443''"
proof -
  let ?c = "\<lparr>ChainRetries = 0, ChainMark = 0, ChainInterface = [], NodeGroups = []\<rparr>"
  let ?s = "''socks5+tls://:8443?sourceInterface=eth7''"
  let ?t = "''tun://:8421?net=192.168.123.1/24&sourceInterface=eth7''"
  let ?n = "projr (ParseNode sample_env ?s)"
  let ?m = "projr (ParseNode sample_env ?t)"
  have ps: "ParseNode sample_env ?s = Inr ?n \<and> Transport ?n \<noteq> ''tcp''" by code_simp
  have pt: "ParseNode sample_env ?t = Inr ?m \<and> Transport ?m \<noteq> ''tcp''" by code_simp
  have an: "Transport ?n = ''tls''" "Addr ?n = '':8443''" by code_simp+
  have am: "Transport ?m = ''tun''" by code_simp
  have "\<not> isl (serveNode sample_env ?c ?s)" by code_simp
  then have rs: "serveNode sample_env ?c ?s
      = Inr (fst (projr (serveNode sample_env ?c ?s)), snd (projr (serveNode sample_env ?c ?s)))"
    by (simp add: Inr_projr)
  have "\<not> isl (serveNode sample_env ?c ?t)" by code_simp
  then have rt: "serveNode sample_env ?c ?t
      = Inr (fst (projr (serveNode sample_env ?c ?t)), snd (projr (serveNode sample_env ?c ?t)))"
    by (simp add: Inr_projr)
  note T = source_interface_ignored[where n = ?n and f = "\<lambda>s. Inr \<lparr>IfName = s, IfIndex = 7\<rparr>"
      and g = "\<lambda>i. Inr [IP [10, 0, 0, 7]]" and t = Some and rs = "ResolveTCPAddr sample_env"
      and st = "\<lambda>a. ''10.0.0.7:8443''" and E = sample_env and c = ?c
      and c' = "snd (projr (serveNode sample_env ?c ?s))" and ns = ?s and ?n0.0 = ?n
      and rt = "fst (projr (serveNode sample_env ?c ?s))"]
  note U = source_interface_ignored[where n = ?m and E = sample_env and c = ?c
      and c' = "snd (projr (serveNode sample_env ?c ?t))" and ns = ?t and ?n0.0 = ?m
      and rt = "fst (projr (serveNode sample_env ?c ?t))"]
  from T ps have w1: "serveNode (sample_env\<lparr>InterfaceByName := (\<lambda>s. Inr \<lparr>IfName = s, IfIndex = 7\<rparr>),
                         InterfaceAddrs := (\<lambda>i. Inr [IP [10, 0, 0, 7]]),
                         To4 := Some, ResolveTCPAddr := ResolveTCPAddr sample_env,
                         TCPAddr_String := (\<lambda>a. ''10.0.0.7:8443'')\<rparr>) ?c ?s
      = serveNode sample_env ?c ?s" by blast
  from T ps rs have "listenerAddr (RouterListener (fst (projr (serveNode sample_env ?c ?s))))
      = (if Transport ?n = ''tun'' \<or> Transport ?n = ''tap'' then None else Some (Addr ?n))"
    by blast
  with an have w2: "listenerAddr (RouterListener (fst (projr (serveNode sample_env ?c ?s))))
      = Some '':8443''" by simp
  from U pt rt have "listenerAddr (RouterListener (fst (projr (serveNode sample_env ?c ?t))))
      = (if Transport ?m = ''tun'' \<or> Transport ?m = ''tap'' then None else Some (Addr ?m))"
    by blast
  with am have w3: "listenerAddr (RouterListener (fst (projr (serveNode sample_env ?c ?t)))) = None"
    by simp
  have sl: "serveListener sample_env ?c ?n None None = Inr (TLSListener '':8443'' None, ?c)"
    by code_simp
  note V = source_interface_ignored[where n = ?n and f = "\<lambda>s. Inr \<lparr>IfName = s, IfIndex = 7\<rparr>"
      and g = "\<lambda>i. Inr [IP [10, 0, 0, 7]]" and t = Some and rs = "ResolveTCPAddr sample_env"
      and st = "\<lambda>a. ''10.0.0.7:8443''" and E = sample_env and c = ?c
      and tlsCfg = None and auth = None and ln = "TLSListener '':8443'' None" and c' = ?c]
  from V ps have "serveListener (sample_env\<lparr>InterfaceByName := (\<lambda>s. Inr \<lparr>IfName = s, IfIndex = 7\<rparr>),
                         InterfaceAddrs := (\<lambda>i. Inr [IP [10, 0, 0, 7]]),
                         To4 := Some, ResolveTCPAddr := ResolveTCPAddr sample_env,
                         TCPAddr_String := (\<lambda>a. ''10.0.0.7:8443'')\<rparr>) ?c ?n None None
      = serveListener sample_env ?c ?n None None" by blast
  with sl have w4: "serveListener (sample_env\<lparr>InterfaceByName := (\<lambda>s. Inr \<lparr>IfName = s, IfIndex = 7\<rparr>),
                         InterfaceAddrs := (\<lambda>i. Inr [IP [10, 0, 0, 7]]),
                         To4 := Some, ResolveTCPAddr := ResolveTCPAddr sample_env,
                         TCPAddr_String := (\<lambda>a. ''10.0.0.7:8443'')\<rparr>) ?c ?n None None
      = Inr (TLSListener '':8443'' None, ?c)" by simp
  from V ps sl have "listenerAddr (TLSListener '':8443'' None)
      = (if Transport ?n = ''tun'' \<or> Transport ?n = ''tap'' then None else Some (Addr ?n))"
    by blast
  with an have w5: "listenerAddr (TLSListener '':8443'' None) = Some '':8443''" by simp
  from w1 w2 w3 w4 w5 \<open>\<not> isl (serveNode sample_env ?c ?s)\<close> show ?thesis by blast
qed

text \<open>
  Claim C10. A list of nodes returned by parseChainNode without error is never empty, so
  the reads of \<open>nodes[0]\<close> in parseChain (for max_fails, fail_timeout, strategy and peer)
  never index an empty slice: neither the assembly of a group from such a list nor
  parseChain as a whole ends in an index panic.
\<close>

theorem chain_nodes_nonempty:
  "(parseChainNode E ns = Inr nodes \<longrightarrow> nodes \<noteq> [] \<and> groupOfNodes E gid nodes \<noteq> Inl IndexPanic)
   \<and> parseChain E r \<noteq> Inl IndexPanic"
  using parseChainNode_nonempty groupOfNodes_no_panic parseChain_no_panic by blast

theorem chain_nodes_nonempty_witness:
  "\<exists>nodes. parseChainNode sample_env ''socks5://u:p@10.0.0.1:1080'' = Inr nodes
      \<and> nodes \<noteq> [] \<and> groupOfNodes sample_env 1 nodes \<noteq> Inl IndexPanic
      \<and> parseChain sample_env (sample_route [] [''socks5://u:p@10.0.0.1:1080'']) \<noteq> Inl IndexPanic"
proof -
  have "\<not> isl (parseChainNode sample_env ''socks5://u:p@10.0.0.1:1080'')"
    by code_simp
  then obtain nodes where n: "parseChainNode sample_env ''socks5://u:p@10.0.0.1:1080'' = Inr nodes"
    by (cases "parseChainNode sample_env ''socks5://u:p@10.0.0.1:1080''") auto
  from n chain_nodes_nonempty[of sample_env "''socks5://u:p@10.0.0.1:1080''" nodes 1
      "sample_route [] [''socks5://u:p@10.0.0.1:1080'']"]
  show ?thesis by blast
qed

end
